theory Spec2Isabelle
  imports Main
begin

section \<open>JavaScript values and objects\<close>

text \<open>
  The values that occur in booking records and request bodies: \<open>undefined\<close>, \<open>null\<close>,
  booleans, integral numbers and strings. A property that is present with the value
  \<open>undefined\<close> (as in the literal \<open>{ id: undefined, ... }\<close>) is different from an
  absent property: object spread copies the former, \<open>JSON.stringify\<close> drops it.
\<close>

datatype jsval = JUndef | JNull | JBool bool | JNum int | JStr string

text \<open>
  An object is the list of its own properties in insertion order, which is the order
  \<open>Object.values\<close> and \<open>JSON.stringify\<close> follow for keys that are not array indices
  (booking ids \<open>b_...\<close>, week keys \<open>2025-W10\<close>, person ids \<open>p...\<close> and field names are not).
  Properties inherited from \<open>Object.prototype\<close> are not modelled.
\<close>

type_synonym 'v obj = "(string \<times> 'v) list"

type_synonym booking = "jsval obj"

text \<open>\<open>o[k]\<close>, with \<open>None\<close> for an absent property.\<close>

definition obj_get :: "'v obj \<Rightarrow> string \<Rightarrow> 'v option" where
  "obj_get ob k = map_of ob k"

text \<open>\<open>o.k\<close> read as a value: an absent property reads as \<open>undefined\<close>.\<close>

definition get_prop :: "jsval obj \<Rightarrow> string \<Rightarrow> jsval" where
  "get_prop ob k = (case obj_get ob k of None \<Rightarrow> JUndef | Some v \<Rightarrow> v)"

text \<open>\<open>o[k] = v\<close>: an existing property keeps its position, a new one goes last.\<close>

fun obj_set :: "string \<Rightarrow> 'v \<Rightarrow> 'v obj \<Rightarrow> 'v obj" where
  "obj_set k v [] = [(k, v)]"
| "obj_set k v (p # ps) = (if fst p = k then (k, v) # ps else p # obj_set k v ps)"

text \<open>\<open>delete o[k]\<close>.\<close>

definition obj_delete :: "string \<Rightarrow> 'v obj \<Rightarrow> 'v obj" where
  "obj_delete k ob = filter (\<lambda>p. fst p \<noteq> k) ob"

definition obj_values :: "'v obj \<Rightarrow> 'v list" where
  "obj_values ob = map snd ob"

definition obj_keys :: "'v obj \<Rightarrow> string list" where
  "obj_keys ob = map fst ob"

text \<open>\<open>{ ...target, ...src }\<close>: every own property of \<open>src\<close> is assigned in order.\<close>

fun spread :: "'v obj \<Rightarrow> 'v obj \<Rightarrow> 'v obj" where
  "spread target [] = target"
| "spread target (p # ps) = spread (obj_set (fst p) (snd p) target) ps"

text \<open>JavaScript truthiness, as used by \<open>!x\<close>, \<open>x || y\<close> and \<open>if (x)\<close>.\<close>

fun truthy :: "jsval \<Rightarrow> bool" where
  "truthy JUndef = False"
| "truthy JNull = False"
| "truthy (JBool b) = b"
| "truthy (JNum n) = (n \<noteq> 0)"
| "truthy (JStr s) = (s \<noteq> [])"

definition js_or :: "jsval \<Rightarrow> jsval \<Rightarrow> jsval" where
  "js_or a b = (if truthy a then a else b)"

text \<open>\<open>String(n)\<close> for an integral number.\<close>

function digits10 :: "int \<Rightarrow> string" where
  "digits10 n = (if n < 10 then [''0123456789'' ! nat n]
                 else digits10 (n div 10) @ [''0123456789'' ! nat (n mod 10)])"
  by pat_completeness auto
termination
  by (relation "measure nat") auto

declare digits10.simps [simp del]

definition String_of_int :: "int \<Rightarrow> string" where
  "String_of_int n = (if n < 0 then CHR ''-'' # digits10 (- n) else digits10 n)"

text \<open>The property key a value is converted to in \<open>o[v]\<close>.\<close>

fun to_key :: "jsval \<Rightarrow> string" where
  "to_key JUndef = ''undefined''"
| "to_key JNull = ''null''"
| "to_key (JBool b) = (if b then ''true'' else ''false'')"
| "to_key (JNum n) = String_of_int n"
| "to_key (JStr s) = s"

text \<open>\<open>s.padStart(n, "0")\<close>.\<close>

definition padStart :: "nat \<Rightarrow> string \<Rightarrow> string" where
  "padStart n s = replicate (n - length s) CHR ''0'' @ s"

text \<open>
  A string is held as the bytes of its UTF-8 encoding, so a character outside ASCII is
  two or three bytes. The white space and line terminators that \<open>String.prototype.trim\<close>
  strips are U+0009 to U+000D, U+0020, U+00A0, U+1680, U+2000 to U+200A, U+2028, U+2029,
  U+202F, U+205F, U+3000 and U+FEFF; \<open>white_space\<close> lists their encodings.
\<close>

definition white_space :: "string list" where
  "white_space =
     [[CHR 0x09], [CHR 0x0A], [CHR 0x0B], [CHR 0x0C], [CHR 0x0D], [CHR 0x20],
      [CHR 0xC2, CHR 0xA0],
      [CHR 0xE1, CHR 0x9A, CHR 0x80],
      [CHR 0xE2, CHR 0x80, CHR 0x80], [CHR 0xE2, CHR 0x80, CHR 0x81], [CHR 0xE2, CHR 0x80, CHR 0x82],
      [CHR 0xE2, CHR 0x80, CHR 0x83], [CHR 0xE2, CHR 0x80, CHR 0x84], [CHR 0xE2, CHR 0x80, CHR 0x85],
      [CHR 0xE2, CHR 0x80, CHR 0x86], [CHR 0xE2, CHR 0x80, CHR 0x87], [CHR 0xE2, CHR 0x80, CHR 0x88],
      [CHR 0xE2, CHR 0x80, CHR 0x89], [CHR 0xE2, CHR 0x80, CHR 0x8A],
      [CHR 0xE2, CHR 0x80, CHR 0xA8], [CHR 0xE2, CHR 0x80, CHR 0xA9], [CHR 0xE2, CHR 0x80, CHR 0xAF],
      [CHR 0xE2, CHR 0x81, CHR 0x9F],
      [CHR 0xE3, CHR 0x80, CHR 0x80],
      [CHR 0xEF, CHR 0xBB, CHR 0xBF]]"

text \<open>
  The number of bytes of the first of the sequences \<open>wss\<close> that \<open>s\<close> starts with, or 0
  when it starts with none.
\<close>

fun ws_len :: "string list \<Rightarrow> string \<Rightarrow> nat" where
  "ws_len [] s = 0"
| "ws_len (ws # wss) s =
     (if ws \<noteq> [] \<and> take (length ws) s = ws then length ws else ws_len wss s)"

text \<open>Drops from the front of \<open>s\<close> as long as it starts with one of the sequences.\<close>

function strip :: "string list \<Rightarrow> string \<Rightarrow> string" where
  "strip wss s = (if ws_len wss s = 0 then s else strip wss (drop (ws_len wss s) s))"
  by pat_completeness auto
termination
proof (relation "measure (\<lambda>(wss, s). length s)")
  show "wf (measure (\<lambda>(wss :: string list, s :: string). length s))"
    by simp
next
  fix wss :: "string list" and s :: string
  assume pos: "ws_len wss s \<noteq> 0"
  have "ws_len wss s \<le> length s"
  proof (induction wss)
    case Nil
    then show ?case by simp
  next
    case (Cons ws wss)
    have "length ws \<le> length s" if "take (length ws) s = ws"
    proof -
      have "length (take (length ws) s) \<le> length s"
        by simp
      with that show ?thesis
        by simp
    qed
    with Cons show ?case by simp
  qed
  with pos show "((wss, drop (ws_len wss s) s), (wss, s)) \<in> measure (\<lambda>(wss, s). length s)"
    by simp
qed

declare strip.simps [simp del]

text \<open>
  \<open>s.trim()\<close>: white space is stripped from the front, and from the end by stripping the
  reversed encodings from the front of the reversed string.
\<close>

definition trim :: "string \<Rightarrow> string" where
  "trim s = rev (strip (map rev white_space) (rev (strip white_space s)))"

text \<open>
  \<open>JSON.parse(JSON.stringify(x))\<close> on a record: properties whose value is \<open>undefined\<close>
  are dropped, everything else is kept in order.
\<close>

definition json_record :: "booking \<Rightarrow> booking" where
  "json_record r = filter (\<lambda>p. snd p \<noteq> JUndef) r"

definition json_store :: "booking obj \<Rightarrow> booking obj" where
  "json_store all = map (\<lambda>p. (fst p, json_record (snd p))) all"

section \<open>Dates\<close>

text \<open>
  A \<open>Date\<close> is its time value, in milliseconds since 1970-01-01T00:00:00Z. The
  functions below are the abstract operations of ECMAScript's Date objects on the
  proleptic Gregorian calendar; time values are taken in the range where a \<open>Date\<close>
  is valid. The local time zone is a fixed offset \<open>tz\<close> in milliseconds
  (local time = UTC + \<open>tz\<close>).
\<close>

type_synonym date = int

definition msPerDay :: int where
  "msPerDay = 86400000"

definition Day :: "date \<Rightarrow> int" where
  "Day t = t div msPerDay"

definition TimeWithinDay :: "date \<Rightarrow> int" where
  "TimeWithinDay t = t mod msPerDay"

text \<open>Day number of the first day of month \<open>m\<close> (0 to 11) of year \<open>y\<close>.\<close>

definition days_from_civil :: "int \<Rightarrow> int \<Rightarrow> int" where
  "days_from_civil y m =
     (let y' = (if m < 2 then y - 1 else y);
          era = y' div 400;
          yoe = y' mod 400;
          mp = (if m < 2 then m + 10 else m - 2);
          doy = (153 * mp + 2) div 5;
          doe = yoe * 365 + yoe div 4 - yoe div 100 + doy
      in era * 146097 + doe - 719468)"

text \<open>Year, month (0 to 11) and day of the month (1 to 31) of a day number.\<close>

definition civil_from_days :: "int \<Rightarrow> int \<times> int \<times> int" where
  "civil_from_days z =
     (let z' = z + 719468;
          era = z' div 146097;
          doe = z' mod 146097;
          yoe = (doe - doe div 1460 + doe div 36524 - doe div 146096) div 365;
          doy = doe - (365 * yoe + yoe div 4 - yoe div 100);
          mp = (5 * doy + 2) div 153;
          d = doy - (153 * mp + 2) div 5 + 1;
          m = (if mp < 10 then mp + 2 else mp - 10);
          y = yoe + era * 400
      in (if m < 2 then y + 1 else y, m, d))"

definition YearFromTime :: "date \<Rightarrow> int" where
  "YearFromTime t = fst (civil_from_days (Day t))"

definition MonthFromTime :: "date \<Rightarrow> int" where
  "MonthFromTime t = fst (snd (civil_from_days (Day t)))"

definition DateFromTime :: "date \<Rightarrow> int" where
  "DateFromTime t = snd (snd (civil_from_days (Day t)))"

text \<open>0 is Sunday.\<close>

definition WeekDay :: "date \<Rightarrow> int" where
  "WeekDay t = (Day t + 4) mod 7"

definition MakeDay :: "int \<Rightarrow> int \<Rightarrow> int \<Rightarrow> int" where
  "MakeDay year month dt = days_from_civil (year + month div 12) (month mod 12) + dt - 1"

definition MakeDate :: "int \<Rightarrow> int \<Rightarrow> date" where
  "MakeDate day time = day * msPerDay + time"

text \<open>\<open>Date.UTC(y, m, d)\<close>; a year from 0 to 99 means 1900 + y.\<close>

definition Date_UTC :: "int \<Rightarrow> int \<Rightarrow> int \<Rightarrow> date" where
  "Date_UTC y m d = MakeDate (MakeDay (if 0 \<le> y \<and> y \<le> 99 then 1900 + y else y) m d) 0"

definition getUTCFullYear :: "date \<Rightarrow> int" where
  "getUTCFullYear t = YearFromTime t"

definition getUTCMonth :: "date \<Rightarrow> int" where
  "getUTCMonth t = MonthFromTime t"

definition getUTCDate :: "date \<Rightarrow> int" where
  "getUTCDate t = DateFromTime t"

definition getUTCDay :: "date \<Rightarrow> int" where
  "getUTCDay t = WeekDay t"

definition getFullYear :: "int \<Rightarrow> date \<Rightarrow> int" where
  "getFullYear tz t = YearFromTime (t + tz)"

definition getMonth :: "int \<Rightarrow> date \<Rightarrow> int" where
  "getMonth tz t = MonthFromTime (t + tz)"

definition getDate :: "int \<Rightarrow> date \<Rightarrow> int" where
  "getDate tz t = DateFromTime (t + tz)"

definition setUTCDate :: "date \<Rightarrow> int \<Rightarrow> date" where
  "setUTCDate t dt = MakeDate (MakeDay (YearFromTime t) (MonthFromTime t) dt) (TimeWithinDay t)"

text \<open>\<open>x.setUTCHours(0, 0, 0, 0)\<close>.\<close>

definition setUTCHours0 :: "date \<Rightarrow> date" where
  "setUTCHours0 t = MakeDate (Day t) 0"

text \<open>\<open>d.toISOString()\<close>: \<open>YYYY-MM-DDTHH:mm:ss.sssZ\<close>, for the years 0 to 9999.\<close>

definition pad_int :: "nat \<Rightarrow> int \<Rightarrow> string" where
  "pad_int n v = padStart n (String_of_int v)"

definition toISOString :: "date \<Rightarrow> string" where
  "toISOString t =
     (let ms = TimeWithinDay t
      in pad_int 4 (YearFromTime t) @ ''-'' @ pad_int 2 (MonthFromTime t + 1) @ ''-''
         @ pad_int 2 (DateFromTime t) @ ''T'' @ pad_int 2 (ms div 3600000) @ '':''
         @ pad_int 2 (ms div 60000 mod 60) @ '':'' @ pad_int 2 (ms div 1000 mod 60) @ ''.''
         @ pad_int 3 (ms mod 1000) @ ''Z'')"

subsection \<open>Date helpers of the boards\<close>

text \<open>\<open>startOfISOWeek\<close> (and \<open>startOfWeek\<close> of the roster board, which computes the same shift).\<close>

definition startOfISOWeek :: "int \<Rightarrow> date \<Rightarrow> date" where
  "startOfISOWeek tz d =
     (let x = Date_UTC (getFullYear tz d) (getMonth tz d) (getDate tz d);
          day = (if getUTCDay x = 0 then 7 else getUTCDay x);
          x' = (if day \<noteq> 1 then setUTCDate x (getUTCDate x - (day - 1)) else x)
      in setUTCHours0 x')"

definition addDays :: "date \<Rightarrow> int \<Rightarrow> date" where
  "addDays dt days = setUTCDate dt (getUTCDate dt + days)"

text \<open>
  \<open>Math.round(((target - week1) / 86400000 - 3 + w) / 7)\<close> with \<open>a = target - week1\<close>:
  \<open>Math.round x\<close> is \<open>\<lfloor>x + 1/2\<rfloor>\<close>, written out over the integers.
\<close>

definition round_weeks :: "int \<Rightarrow> int \<Rightarrow> int" where
  "round_weeks a w = (2 * (a + (w - 3) * msPerDay) + 7 * msPerDay) div (14 * msPerDay)"

definition weekKeyFromDate :: "date \<Rightarrow> string" where
  "weekKeyFromDate d =
     (let target0 = Date_UTC (getUTCFullYear d) (getUTCMonth d) (getUTCDate d);
          target = setUTCDate target0 (getUTCDate target0 + 3 - ((getUTCDay target0 + 6) mod 7));
          week1 = Date_UTC (getUTCFullYear target) 0 4;
          weekNo = 1 + round_weeks (target - week1) ((getUTCDay week1 + 6) mod 7)
      in String_of_int (getUTCFullYear target) @ ''-W'' @ padStart 2 (String_of_int weekNo))"

text \<open>\<open>weekKey\<close> of the roster board.\<close>

definition weekKey :: "date \<Rightarrow> string" where
  "weekKey d =
     (let y = getUTCFullYear d;
          tmp0 = Date_UTC (getUTCFullYear d) (getUTCMonth d) (getUTCDate d);
          tmp = setUTCDate tmp0 (getUTCDate tmp0 + 3 - ((getUTCDay tmp0 + 6) mod 7));
          week1 = Date_UTC (getUTCFullYear tmp) 0 4;
          weekNo = 1 + round_weeks (tmp - week1) ((getUTCDay week1 + 6) mod 7)
      in String_of_int y @ ''-W'' @ padStart 2 (String_of_int weekNo))"

section \<open>Configuration\<close>

record config =
  backendUrl :: "string option"
  refreshMs :: int
  onePerWeek :: bool
  hoursStart :: int
  hoursEnd :: int

definition CONFIG :: config where
  "CONFIG = \<lparr>backendUrl = None, refreshMs = 60000, onePerWeek = True,
             hoursStart = 7, hoursEnd = 20\<rparr>"

text \<open>
  \<open>Array.from({ length: (CONFIG.hoursEnd - CONFIG.hoursStart) + 1 }, (_, i) => CONFIG.hoursStart + i)\<close>:
  the start hours offered by the form.
\<close>

definition HOURS :: "int list" where
  "HOURS = map (\<lambda>i. hoursStart CONFIG + int i) [0 ..< nat ((hoursEnd CONFIG - hoursStart CONFIG) + 1)]"

text \<open>\<open>CONFIG.backendUrl ? ... : ...\<close>: \<open>null\<close> and the empty string are falsy.\<close>

definition use_http :: "config \<Rightarrow> bool" where
  "use_http cfg = (case backendUrl cfg of None \<Rightarrow> False | Some u \<Rightarrow> u \<noteq> [])"

section \<open>Storage layer\<close>

text \<open>
  An awaited call either returns a value or throws; a thrown \<open>Error\<close> carries its
  message. Transport failures of \<open>fetch\<close> and failing writes to \<open>localStorage\<close> (which
  \<open>saveAllLS\<close> swallows) are outside the model: the store is taken to be available.
\<close>

datatype js_error = Error string | TypeError string

text \<open>\<open>`b_${Date.now()}_${Math.random().toString(36).slice(2, 8)}`\<close>, from the clock and the random suffix.\<close>

definition new_id :: "int \<Rightarrow> string \<Rightarrow> string" where
  "new_id now rnd = ''b_'' @ String_of_int now @ ''_'' @ rnd"

subsection \<open>The localStorage backend\<close>

text \<open>
  The state is the object stored under \<open>LS_KEY\<close>, as \<open>JSON.parse\<close> returns it; the
  empty object when nothing has been stored.
\<close>

type_synonym lsstore = "booking obj"

definition loadAllLS :: "lsstore \<Rightarrow> booking obj" where
  "loadAllLS s = s"

definition saveAllLS :: "booking obj \<Rightarrow> lsstore" where
  "saveAllLS ob = json_store ob"

definition apiGetWeekLS :: "string \<Rightarrow> lsstore \<Rightarrow> booking list" where
  "apiGetWeekLS wk s =
     (let all = loadAllLS s in filter (\<lambda>b. get_prop b ''weekKey'' = JStr wk) (obj_values all))"

text \<open>Returns \<open>all[id]\<close>, the object built by \<open>{ id, ...body }\<close>, and the new state.\<close>

definition apiCreateLS :: "int \<Rightarrow> string \<Rightarrow> booking \<Rightarrow> lsstore \<Rightarrow> booking \<times> lsstore" where
  "apiCreateLS now rnd body s =
     (let all = loadAllLS s;
          id = new_id now rnd;
          record = spread [(''id'', JStr id)] body;
          all' = obj_set id record all
      in (record, saveAllLS all'))"

definition apiDeleteLS :: "jsval \<Rightarrow> lsstore \<Rightarrow> lsstore" where
  "apiDeleteLS bid s = (let all = loadAllLS s in saveAllLS (obj_delete (to_key bid) all))"

subsection \<open>The serverless handler\<close>

record request =
  reqMethod :: string
  query :: "string obj"
  body :: "booking option"

datatype payload =
    PError string
  | PList "booking list"
  | PRecord booking
  | POk
  | PText string

record response =
  status :: int
  headers :: "(string \<times> string list) list"
  payload :: payload

text \<open>The module-level \<open>cache\<close>: week key to id to record.\<close>

type_synonym cache = "booking obj obj"

definition query_param :: "string obj \<Rightarrow> string \<Rightarrow> jsval" where
  "query_param q k = (case obj_get q k of None \<Rightarrow> JUndef | Some v \<Rightarrow> JStr v)"

definition bucket :: "cache \<Rightarrow> string \<Rightarrow> booking obj" where
  "bucket c wk = (case obj_get c wk of None \<Rightarrow> [] | Some b \<Rightarrow> b)"

text \<open>\<open>query.weekKey || body?.weekKey\<close>.\<close>

definition req_weekKey :: "request \<Rightarrow> jsval" where
  "req_weekKey req =
     js_or (query_param (query req) ''weekKey'')
           (case body req of None \<Rightarrow> JUndef | Some b \<Rightarrow> get_prop b ''weekKey'')"

definition handler :: "int \<Rightarrow> string \<Rightarrow> request \<Rightarrow> cache \<Rightarrow> response \<times> cache" where
  "handler now rnd req c =
     (let weekKey = req_weekKey req
      in if \<not> truthy weekKey
         then (\<lparr>status = 400, headers = [], payload = PError ''Missing weekKey''\<rparr>, c)
         else
           let wk = to_key weekKey;
               c1 = (if obj_get c wk = None then obj_set wk [] c else c)
           in if reqMethod req = ''GET''
              then (\<lparr>status = 200, headers = [], payload = PList (obj_values (bucket c1 wk))\<rparr>, c1)
              else if reqMethod req = ''POST''
              then
                let id = new_id now rnd;
                    record = spread [(''id'', JStr id)] (case body req of None \<Rightarrow> [] | Some b \<Rightarrow> b)
                in (\<lparr>status = 201, headers = [], payload = PRecord record\<rparr>,
                    obj_set wk (obj_set id record (bucket c1 wk)) c1)
              else if reqMethod req = ''DELETE''
              then
                let id = query_param (query req) ''id''
                in (\<lparr>status = 200, headers = [], payload = POk\<rparr>,
                    if truthy id \<and> obj_get (bucket c1 wk) (to_key id) \<noteq> None
                    then obj_set wk (obj_delete (to_key id) (bucket c1 wk)) c1
                    else c1)
              else (\<lparr>status = 405, headers = [(''Allow'', [''GET'', ''POST'', ''DELETE''])],
                     payload = PText (''Method '' @ reqMethod req @ '' Not Allowed'')\<rparr>, c1))"

subsection \<open>The HTTP backend\<close>

text \<open>\<open>r.ok\<close>.\<close>

definition ok :: "response \<Rightarrow> bool" where
  "ok r = (200 \<le> status r \<and> status r \<le> 299)"

text \<open>\<open>await r.text()\<close>, the serialised body.\<close>

fun text_of :: "payload \<Rightarrow> string" where
  "text_of (PError e) = ''{'' @ [CHR 0x22] @ ''error'' @ [CHR 0x22] @ '':'' @ [CHR 0x22] @ e @ [CHR 0x22] @ ''}''"
| "text_of (PText t) = t"
| "text_of POk = ''{'' @ [CHR 0x22] @ ''ok'' @ [CHR 0x22] @ '':true}''"
| "text_of _ = []"

text \<open>
  The request \<open>fetch\<close> sends to the handler. \<open>GET\<close> carries the week key in the query
  string. \<open>POST\<close> carries \<open>JSON.stringify(body)\<close> and no query string. \<open>DELETE\<close> goes
  to \<open>/bookings/<id>\<close> with neither query string nor body; the path segment is handed
  to the handler as \<open>query.id\<close>, the way a dynamic route does (without such a route
  the request does not reach the handler, the response is not \<open>ok\<close> either, and the
  call throws all the same). The server keeps its \<open>cache\<close> from one request to the
  next. A successful response has the body the handler sends for the method; the last
  case of \<open>apiGetWeekHTTP\<close> and \<open>apiCreateHTTP\<close> does not occur.
\<close>

definition apiGetWeekHTTP :: "int \<Rightarrow> string \<Rightarrow> string \<Rightarrow> cache \<Rightarrow> (js_error + booking list) \<times> cache" where
  "apiGetWeekHTTP now rnd wk c =
     (let (r, c') = handler now rnd \<lparr>reqMethod = ''GET'', query = [(''weekKey'', wk)], body = None\<rparr> c
      in if \<not> ok r then (Inl (Error (text_of (payload r))), c')
         else (case payload r of
                 PList bs \<Rightarrow> (Inr (map json_record bs), c')
               | _ \<Rightarrow> (Inl (Error ''Unexpected response''), c')))"

definition apiCreateHTTP :: "int \<Rightarrow> string \<Rightarrow> booking \<Rightarrow> cache \<Rightarrow> (js_error + booking) \<times> cache" where
  "apiCreateHTTP now rnd b c =
     (let (r, c') = handler now rnd \<lparr>reqMethod = ''POST'', query = [], body = Some (json_record b)\<rparr> c
      in if \<not> ok r then (Inl (Error (text_of (payload r))), c')
         else (case payload r of
                 PRecord created \<Rightarrow> (Inr (json_record created), c')
               | _ \<Rightarrow> (Inl (Error ''Unexpected response''), c')))"

definition apiDeleteHTTP :: "int \<Rightarrow> string \<Rightarrow> jsval \<Rightarrow> cache \<Rightarrow> (js_error + unit) \<times> cache" where
  "apiDeleteHTTP now rnd bid c =
     (let (r, c') = handler now rnd \<lparr>reqMethod = ''DELETE'', query = [(''id'', to_key bid)], body = None\<rparr> c
      in if \<not> ok r then (Inl (Error (text_of (payload r))), c') else (Inr (), c'))"

subsection \<open>The \<open>API\<close> object\<close>

text \<open>The browser's storage and the server's memory.\<close>

record world =
  ls :: lsstore
  srv :: cache

definition API_getWeek :: "config \<Rightarrow> int \<Rightarrow> string \<Rightarrow> string \<Rightarrow> world \<Rightarrow> (js_error + booking list) \<times> world" where
  "API_getWeek cfg now rnd wk w =
     (if use_http cfg
      then (let (r, c') = apiGetWeekHTTP now rnd wk (srv w) in (r, w\<lparr>srv := c'\<rparr>))
      else (Inr (apiGetWeekLS wk (ls w)), w))"

definition API_create :: "config \<Rightarrow> int \<Rightarrow> string \<Rightarrow> booking \<Rightarrow> world \<Rightarrow> (js_error + booking) \<times> world" where
  "API_create cfg now rnd b w =
     (if use_http cfg
      then (let (r, c') = apiCreateHTTP now rnd b (srv w) in (r, w\<lparr>srv := c'\<rparr>))
      else (let (created, s') = apiCreateLS now rnd b (ls w) in (Inr created, w\<lparr>ls := s'\<rparr>)))"

definition API_del :: "config \<Rightarrow> int \<Rightarrow> string \<Rightarrow> jsval \<Rightarrow> world \<Rightarrow> (js_error + unit) \<times> world" where
  "API_del cfg now rnd bid w =
     (if use_http cfg
      then (let (r, c') = apiDeleteHTTP now rnd bid (srv w) in (r, w\<lparr>srv := c'\<rparr>))
      else (Inr (), w\<lparr>ls := apiDeleteLS bid (ls w)\<rparr>))"

section \<open>The weekly board\<close>

text \<open>The state of \<open>Board\<close> that the handlers read and write.\<close>

record board =
  baseDate :: date
  bookings :: "booking list"
  error :: string
  name :: string
  dayIndex :: nat
  startHour :: int

definition init_board :: "int \<Rightarrow> date \<Rightarrow> board" where
  "init_board tz now = \<lparr>baseDate = startOfISOWeek tz now, bookings = [], error = [], name = [],
                         dayIndex = 0, startHour = 8\<rparr>"

text \<open>\<open>Array.from({ length: 7 }, (_, i) => addDays(baseDate, i))\<close>.\<close>

definition days :: "board \<Rightarrow> date list" where
  "days b = map (\<lambda>i. addDays (baseDate b) (int i)) [0 ..< 7]"

text \<open>\<open>String(e.message || e)\<close>.\<close>

fun err_text :: "js_error \<Rightarrow> string" where
  "err_text (Error m) = (if m \<noteq> [] then m else ''Error'')"
| "err_text (TypeError m) = (if m \<noteq> [] then m else ''TypeError'')"

definition load :: "config \<Rightarrow> int \<Rightarrow> string \<Rightarrow> board \<Rightarrow> world \<Rightarrow> board \<times> world" where
  "load cfg now rnd b w =
     (case API_getWeek cfg now rnd (weekKeyFromDate (baseDate b)) w of
        (Inr data, w') \<Rightarrow> (b\<lparr>error := [], bookings := data\<rparr>, w')
      | (Inl e, w') \<Rightarrow> (b\<lparr>error := err_text e\<rparr>, w'))"

text \<open>
  The messages of \<open>submit\<close>; the second has the non-breaking hyphen U+2011 between
  \<open>4\<close> and \<open>hour\<close>, the bytes E2 80 91.
\<close>

definition msg_no_name :: string where
  "msg_no_name = ''Please enter your name''"

definition msg_one_per_week :: string where
  "msg_one_per_week =
     ''You already have a 4'' @ [CHR 0xE2, CHR 0x80, CHR 0x91] @ ''hour assignment this week.''"

text \<open>The object literal \<open>submit\<close> passes to \<open>API.create\<close>, for the day \<open>d\<close>.\<close>

definition submit_body :: "int \<Rightarrow> board \<Rightarrow> date \<Rightarrow> booking" where
  "submit_body tz b d =
     (let nm = trim (name b);
          iso = toISOString (Date_UTC (getFullYear tz d) (getMonth tz d) (getDate tz d))
      in [(''id'', JUndef), (''title'', JStr nm), (''dayISO'', JStr iso),
          (''startHour'', JNum (startHour b)), (''durationHours'', JNum 4),
          (''weekKey'', JStr (weekKeyFromDate (baseDate b)))])"

text \<open>
  \<open>submit\<close>. A day index outside the seven days makes \<open>d\<close> undefined, and
  \<open>d.getFullYear()\<close> throws before the \<open>try\<close>.
\<close>

definition submit :: "config \<Rightarrow> int \<Rightarrow> int \<Rightarrow> string \<Rightarrow> board \<Rightarrow> world \<Rightarrow> js_error + board \<times> world" where
  "submit cfg tz now rnd b w =
     (let nm = trim (name b)
      in if nm = [] then Inr (b\<lparr>error := msg_no_name\<rparr>, w)
         else if onePerWeek cfg \<and> list_ex (\<lambda>bk. get_prop bk ''title'' = JStr nm) (bookings b)
         then Inr (b\<lparr>error := msg_one_per_week\<rparr>, w)
         else if length (days b) \<le> dayIndex b then Inl (TypeError ''d is undefined'')
         else
           let d = days b ! dayIndex b
           in (case API_create cfg now rnd (submit_body tz b d) w of
                 (Inr created, w') \<Rightarrow> Inr (load cfg now rnd (b\<lparr>name := []\<rparr>) w')
               | (Inl e, w') \<Rightarrow> Inr (b\<lparr>error := err_text e\<rparr>, w')))"

definition remove :: "config \<Rightarrow> int \<Rightarrow> string \<Rightarrow> jsval \<Rightarrow> board \<Rightarrow> world \<Rightarrow> board \<times> world" where
  "remove cfg now rnd bid b w =
     (case API_del cfg now rnd bid w of
        (Inr u, w') \<Rightarrow> load cfg now rnd b w'
      | (Inl e, w') \<Rightarrow> (b\<lparr>error := err_text e\<rparr>, w'))"

text \<open>
  The buttons \<open>Prev\<close> and \<open>Next\<close> move \<open>baseDate\<close> by seven days; the week key changes
  with it, and the effect on \<open>[weekKey]\<close> runs the \<open>load\<close> of the new render.
\<close>

definition prev_week :: "config \<Rightarrow> int \<Rightarrow> string \<Rightarrow> board \<Rightarrow> world \<Rightarrow> board \<times> world" where
  "prev_week cfg now rnd b w = load cfg now rnd (b\<lparr>baseDate := baseDate b - 7 * 86400000\<rparr>) w"

definition next_week :: "config \<Rightarrow> int \<Rightarrow> string \<Rightarrow> board \<Rightarrow> world \<Rightarrow> board \<times> world" where
  "next_week cfg now rnd b w = load cfg now rnd (b\<lparr>baseDate := baseDate b + 7 * 86400000\<rparr>) w"

text \<open>
  The refresh timer. \<open>useEffect(() => { const id = setInterval(load, CONFIG.refreshMs); ... }, [])\<close>
  runs once, after the first render, so every tick calls the \<open>load\<close> of the first
  render: it asks for the week key of the first render's \<open>baseDate\<close>, here that of
  \<open>b0\<close>, and writes the answer into the current state through \<open>setBookings\<close> and
  \<open>setError\<close>.
\<close>

definition refresh_tick :: "config \<Rightarrow> int \<Rightarrow> string \<Rightarrow> board \<Rightarrow> board \<Rightarrow> world \<Rightarrow> board \<times> world" where
  "refresh_tick cfg now rnd b0 b w =
     (case API_getWeek cfg now rnd (weekKeyFromDate (baseDate b0)) w of
        (Inr data, w') \<Rightarrow> (b\<lparr>error := [], bookings := data\<rparr>, w')
      | (Inl e, w') \<Rightarrow> (b\<lparr>error := err_text e\<rparr>, w'))"

section \<open>The roster board\<close>

text \<open>\<open>Array.from({ length: 13 }, (_, i) => 6 + i)\<close>.\<close>

definition HOURS_roster :: "int list" where
  "HOURS_roster = map (\<lambda>i. 6 + int i) [0 ..< 13]"

definition startOfWeek :: "int \<Rightarrow> date \<Rightarrow> date" where
  "startOfWeek tz dt =
     (let d = Date_UTC (getFullYear tz dt) (getMonth tz dt) (getDate tz dt);
          day = getUTCDay d;
          diff = (if day = 0 then - 6 else 1) - day
      in setUTCHours0 (setUTCDate d (getUTCDate d + diff)))"

text \<open>
  \<open>assignments\<close> maps a week key to an object that maps a person id to
  \<open>{ dayIndex, startHour }\<close>.
\<close>

type_synonym assignments = "jsval obj obj obj"

record roster =
  baseDateR :: date
  assignments :: assignments
  selectedPersonId :: string
  selectedDay :: int
  selectedStart :: int

definition wkKey :: "roster \<Rightarrow> string" where
  "wkKey st = weekKey (baseDateR st)"

text \<open>\<open>assignments[wkKey] || {}\<close>.\<close>

definition thisWeek :: "roster \<Rightarrow> jsval obj obj" where
  "thisWeek st = (case obj_get (assignments st) (wkKey st) of None \<Rightarrow> [] | Some wk \<Rightarrow> wk)"

definition assignFourHours :: "roster \<Rightarrow> roster" where
  "assignFourHours st =
     (if selectedPersonId st = [] then st
      else
        let endHour = selectedStart st + 4
        in if endHour > 24 then st
           else
             let week = spread [] (thisWeek st);
                 week' = obj_set (selectedPersonId st)
                           [(''dayIndex'', JNum (selectedDay st)), (''startHour'', JNum (selectedStart st))]
                           week
             in st\<lparr>assignments := obj_set (wkKey st) week' (spread [] (assignments st))\<rparr>)"

definition clearAssignment :: "string \<Rightarrow> roster \<Rightarrow> roster" where
  "clearAssignment pid st =
     (let week = spread [] (thisWeek st);
          week' = obj_delete pid week
      in st\<lparr>assignments := obj_set (wkKey st) week' (spread [] (assignments st))\<rparr>)"

definition goPrev :: "roster \<Rightarrow> roster" where
  "goPrev st = st\<lparr>baseDateR := addDays (baseDateR st) (- 7)\<rparr>"

definition goNext :: "roster \<Rightarrow> roster" where
  "goNext st = st\<lparr>baseDateR := addDays (baseDateR st) 7\<rparr>"

definition goToday :: "int \<Rightarrow> date \<Rightarrow> roster \<Rightarrow> roster" where
  "goToday tz now st = st\<lparr>baseDateR := startOfWeek tz now\<rparr>"

text \<open>
  What the user can do on the roster board. Adding a person and the display switch
  change none of the fields kept here.
\<close>

datatype action =
    AssignFourHours
  | ClearAssignment string
  | GoPrev
  | GoNext
  | GoToday int date
  | SelectPerson string
  | SelectDay int
  | SelectStart int

fun act :: "action \<Rightarrow> roster \<Rightarrow> roster" where
  "act AssignFourHours st = assignFourHours st"
| "act (ClearAssignment pid) st = clearAssignment pid st"
| "act GoPrev st = goPrev st"
| "act GoNext st = goNext st"
| "act (GoToday tz now) st = goToday tz now st"
| "act (SelectPerson pid) st = st\<lparr>selectedPersonId := pid\<rparr>"
| "act (SelectDay i) st = st\<lparr>selectedDay := i\<rparr>"
| "act (SelectStart h) st = st\<lparr>selectedStart := h\<rparr>"

text \<open>
  A stored \<open>assignments\<close> object, as \<open>JSON.parse\<close> returns it: no object has two
  properties of the same name.
\<close>

definition parsed_assignments :: "assignments \<Rightarrow> bool" where
  "parsed_assignments a = (distinct (obj_keys a) \<and> list_all (\<lambda>w. distinct (obj_keys (snd w))) a)"

text \<open>
  The states the board can be in: it starts from the stored assignments (or none) and
  changes by the user's actions.
\<close>

inductive reachable :: "roster \<Rightarrow> bool" where
  start: "parsed_assignments (assignments st) \<Longrightarrow> reachable st"
| step: "reachable st \<Longrightarrow> reachable (act a st)"

text \<open>The assignments recorded for person \<open>pid\<close> in week \<open>wk\<close>.\<close>

definition assignments_of :: "assignments \<Rightarrow> string \<Rightarrow> string \<Rightarrow> jsval obj list" where
  "assignments_of a wk pid =
     map snd (filter (\<lambda>p. fst p = pid) (concat (map snd (filter (\<lambda>w. fst w = wk) a))))"

section \<open>The store as its caller sees it\<close>

text \<open>
  One call of \<open>API.getWeek\<close>, \<open>API.create\<close> or \<open>API.del\<close>, and what the caller
  gets back. Each call runs with the clock value and the random suffix that the id
  generator would read.
\<close>

datatype store_op = ListForWeek string | CreateOp booking | DeleteOp jsval

datatype outcome = Listed "booking list" | Created booking | Deleted | Threw js_error

fun run_LS :: "int \<Rightarrow> string \<Rightarrow> store_op \<Rightarrow> lsstore \<Rightarrow> outcome \<times> lsstore" where
  "run_LS now rnd (ListForWeek wk) s = (Listed (apiGetWeekLS wk s), s)"
| "run_LS now rnd (CreateOp d) s = (Created (fst (apiCreateLS now rnd d s)), snd (apiCreateLS now rnd d s))"
| "run_LS now rnd (DeleteOp bid) s = (Deleted, apiDeleteLS bid s)"

fun run_HTTP :: "int \<Rightarrow> string \<Rightarrow> store_op \<Rightarrow> cache \<Rightarrow> outcome \<times> cache" where
  "run_HTTP now rnd (ListForWeek wk) c =
     (case apiGetWeekHTTP now rnd wk c of
        (Inr bs, c') \<Rightarrow> (Listed bs, c')
      | (Inl e, c') \<Rightarrow> (Threw e, c'))"
| "run_HTTP now rnd (CreateOp d) c =
     (case apiCreateHTTP now rnd d c of
        (Inr created, c') \<Rightarrow> (Created created, c')
      | (Inl e, c') \<Rightarrow> (Threw e, c'))"
| "run_HTTP now rnd (DeleteOp bid) c =
     (case apiDeleteHTTP now rnd bid c of
        (Inr u, c') \<Rightarrow> (Deleted, c')
      | (Inl e, c') \<Rightarrow> (Threw e, c'))"

fun run_all_LS :: "(int \<times> string \<times> store_op) list \<Rightarrow> lsstore \<Rightarrow> outcome list \<times> lsstore" where
  "run_all_LS [] s = ([], s)"
| "run_all_LS ((now, rnd, opn) # ops) s =
     (fst (run_LS now rnd opn s) # fst (run_all_LS ops (snd (run_LS now rnd opn s))),
      snd (run_all_LS ops (snd (run_LS now rnd opn s))))"

fun run_all_HTTP :: "(int \<times> string \<times> store_op) list \<Rightarrow> cache \<Rightarrow> outcome list \<times> cache" where
  "run_all_HTTP [] c = ([], c)"
| "run_all_HTTP ((now, rnd, opn) # ops) c =
     (fst (run_HTTP now rnd opn c) # fst (run_all_HTTP ops (snd (run_HTTP now rnd opn c))),
      snd (run_all_HTTP ops (snd (run_HTTP now rnd opn c))))"

definition no_undefined :: "booking \<Rightarrow> bool" where
  "no_undefined r = list_all (\<lambda>p. snd p \<noteq> JUndef) r"

definition weekKey_of :: "booking \<Rightarrow> string option" where
  "weekKey_of d = (case get_prop d ''weekKey'' of JStr wk \<Rightarrow> (if wk = [] then None else Some wk) | _ \<Rightarrow> None)"

text \<open>
  A draft in general: apart from \<open>id\<close>, which \<open>submit\<close> sets to \<open>undefined\<close>, no
  property is \<open>undefined\<close>, and \<open>weekKey\<close> is a non-empty string.
\<close>

definition draft :: "booking \<Rightarrow> bool" where
  "draft d = (distinct (obj_keys d) \<and> no_undefined (obj_delete ''id'' d) \<and> weekKey_of d \<noteq> None)"

text \<open>
  A draft as \<open>create\<close> is specified to take it: an object with no property set to
  \<open>undefined\<close> whose \<open>weekKey\<close> is a non-empty string.
\<close>

definition plain_draft :: "booking \<Rightarrow> bool" where
  "plain_draft d = (distinct (obj_keys d) \<and> no_undefined d \<and> weekKey_of d \<noteq> None)"

text \<open>
  A sequence of list and create calls on non-empty week keys and plain drafts, in which
  every generated id is new to the store.
\<close>

fun admissible :: "(int \<times> string \<times> store_op) list \<Rightarrow> lsstore \<Rightarrow> bool" where
  "admissible [] s = True"
| "admissible ((now, rnd, ListForWeek wk) # ops) s = (wk \<noteq> [] \<and> admissible ops s)"
| "admissible ((now, rnd, CreateOp d) # ops) s =
     (plain_draft d \<and> new_id now rnd \<notin> set (obj_keys s)
      \<and> admissible ops (snd (apiCreateLS now rnd d s)))"
| "admissible ((now, rnd, DeleteOp bid) # ops) s = False"

text \<open>
  Store contents as \<open>JSON.parse\<close> returns them: no object has two properties of the
  same name and no property is \<open>undefined\<close>.
\<close>

definition parsed_record :: "booking \<Rightarrow> bool" where
  "parsed_record r = (distinct (obj_keys r) \<and> no_undefined r)"

definition parsed_store :: "booking obj \<Rightarrow> bool" where
  "parsed_store s = (distinct (obj_keys s) \<and> list_all (\<lambda>p. parsed_record (snd p)) s)"

definition parsed_cache :: "cache \<Rightarrow> bool" where
  "parsed_cache c = (distinct (obj_keys c) \<and> list_all (\<lambda>p. parsed_store (snd p)) c)"

text \<open>Equality of two records apart from their \<open>id\<close> property.\<close>

definition eq_mod_id :: "booking \<Rightarrow> booking \<Rightarrow> bool" where
  "eq_mod_id a b = (obj_delete ''id'' a = obj_delete ''id'' b)"

text \<open>The stored bookings of week \<open>wk\<close> with title \<open>t\<close>.\<close>

definition bookings_for :: "lsstore \<Rightarrow> string \<Rightarrow> string \<Rightarrow> booking list" where
  "bookings_for s wk t =
     filter (\<lambda>b. get_prop b ''weekKey'' = JStr wk \<and> get_prop b ''title'' = JStr t) (obj_values s)"

text \<open>
  The relation between the two stores under which they answer alike: the server's
  bucket of a week holds the entries of the local store that carry that week key, in
  the same order.
\<close>

definition same_content :: "lsstore \<Rightarrow> cache \<Rightarrow> bool" where
  "same_content s c =
     (parsed_store s
      \<and> (\<forall>wk. bucket c wk = filter (\<lambda>p. get_prop (snd p) ''weekKey'' = JStr wk) s))"

section \<open>Objects: assignment, deletion, spread\<close>

lemma obj_get_obj_set: "obj_get (obj_set k v ob) k' = (if k' = k then Some v else obj_get ob k')"
  by (induction ob) (auto simp: obj_get_def)

lemma obj_set_new: "k \<notin> set (obj_keys ob) \<Longrightarrow> obj_set k v ob = ob @ [(k, v)]"
  by (induction ob) (auto simp: obj_keys_def)

lemma set_obj_keys_obj_set: "set (obj_keys (obj_set k v ob)) = insert k (set (obj_keys ob))"
  by (induction ob) (auto simp: obj_keys_def)

lemma distinct_obj_set: "distinct (obj_keys ob) \<Longrightarrow> distinct (obj_keys (obj_set k v ob))"
proof (induction ob)
  case Nil
  then show ?case by (simp add: obj_keys_def)
next
  case (Cons p ps)
  have "set (obj_keys (obj_set k v ps)) = insert k (set (obj_keys ps))"
    by (rule set_obj_keys_obj_set)
  with Cons show ?case by (auto simp: obj_keys_def)
qed

lemma distinct_obj_delete: "distinct (obj_keys ob) \<Longrightarrow> distinct (obj_keys (obj_delete k ob))"
  by (simp add: obj_keys_def obj_delete_def distinct_map_filter)

lemma obj_get_None_iff: "obj_get ob k = None \<longleftrightarrow> k \<notin> set (obj_keys ob)"
  by (simp add: obj_get_def obj_keys_def map_of_eq_None_iff)

lemma spread_disjoint:
  "distinct (obj_keys d) \<Longrightarrow> set (obj_keys d) \<inter> set (obj_keys t) = {} \<Longrightarrow> spread t d = t @ d"
proof (induction d arbitrary: t)
  case Nil
  then show ?case by simp
next
  case (Cons p ps)
  from Cons.prems have new: "fst p \<notin> set (obj_keys t)"
    by (auto simp: obj_keys_def)
  then have set_eq: "obj_set (fst p) (snd p) t = t @ [p]"
    by (simp add: obj_set_new)
  from Cons.prems have "distinct (obj_keys ps)" "set (obj_keys ps) \<inter> set (obj_keys (t @ [p])) = {}"
    by (auto simp: obj_keys_def)
  then have "spread (t @ [p]) ps = (t @ [p]) @ ps"
    by (rule Cons.IH)
  with set_eq show ?case by simp
qed

lemma spread_empty: "distinct (obj_keys d) \<Longrightarrow> spread [] d = d"
  using spread_disjoint [of d "[]"] by (simp add: obj_keys_def)

lemma obj_delete_obj_set_same: "obj_delete k (obj_set k v ob) = obj_delete k ob"
  by (induction ob) (auto simp: obj_delete_def)

lemma obj_delete_spread:
  "distinct (obj_keys d) \<Longrightarrow> k \<in> set (obj_keys t)
   \<Longrightarrow> set (obj_keys d) \<inter> set (obj_keys (obj_delete k t)) = {}
   \<Longrightarrow> obj_delete k (spread t d) = obj_delete k t @ obj_delete k d"
proof (induction d arbitrary: t)
  case Nil
  then show ?case by (simp add: obj_delete_def)
next
  case (Cons p ps)
  show ?case
  proof (cases "fst p = k")
    case True
    let ?t = "obj_set k (snd p) t"
    have del: "obj_delete k ?t = obj_delete k t"
      using obj_delete_obj_set_same [of k "snd p" t] by simp
    have "obj_delete k (spread ?t ps) = obj_delete k ?t @ obj_delete k ps"
    proof (rule Cons.IH)
      show "distinct (obj_keys ps)" using Cons.prems(1) by (simp add: obj_keys_def)
      show "k \<in> set (obj_keys ?t)" by (simp add: set_obj_keys_obj_set)
      show "set (obj_keys ps) \<inter> set (obj_keys (obj_delete k ?t)) = {}"
        using Cons.prems(3) del by (auto simp: obj_keys_def)
    qed
    with True del show ?thesis by (simp add: obj_delete_def)
  next
    case False
    have notin: "fst p \<notin> set (obj_keys t)"
      using Cons.prems(3) False by (auto simp: obj_keys_def obj_delete_def)
    then have set_eq: "obj_set (fst p) (snd p) t = t @ [p]"
      by (simp add: obj_set_new)
    have "obj_delete k (spread (t @ [p]) ps) = obj_delete k (t @ [p]) @ obj_delete k ps"
    proof (rule Cons.IH)
      show "distinct (obj_keys ps)" using Cons.prems(1) by (simp add: obj_keys_def)
      show "k \<in> set (obj_keys (t @ [p]))" using Cons.prems(2) by (simp add: obj_keys_def)
      show "set (obj_keys ps) \<inter> set (obj_keys (obj_delete k (t @ [p]))) = {}"
        using Cons.prems(1,3) False by (auto simp: obj_keys_def obj_delete_def)
    qed
    with set_eq False show ?thesis by (simp add: obj_delete_def)
  qed
qed

lemma obj_delete_id_spread:
  "distinct (obj_keys d) \<Longrightarrow> obj_delete ''id'' (spread [(''id'', x)] d) = obj_delete ''id'' d"
  using obj_delete_spread [of d "''id''" "[(''id'', x)]"]
  by (simp add: obj_keys_def obj_delete_def)

lemma obj_get_Cons: "obj_get (p # ps) k = (if fst p = k then Some (snd p) else obj_get ps k)"
  by (cases p) (simp add: obj_get_def)

lemma obj_keys_Cons: "obj_keys (p # ps) = fst p # obj_keys ps"
  by (simp add: obj_keys_def)

lemma obj_keys_Nil: "obj_keys [] = []"
  by (simp add: obj_keys_def)

lemma obj_get_spread:
  "distinct (obj_keys d) \<Longrightarrow>
   obj_get (spread t d) k = (case obj_get d k of None \<Rightarrow> obj_get t k | Some v \<Rightarrow> Some v)"
proof (induction d arbitrary: t)
  case Nil
  then show ?case by (simp add: obj_get_def)
next
  case (Cons p ps)
  from Cons.prems have d: "distinct (obj_keys ps)" and n: "fst p \<notin> set (obj_keys ps)"
    by (auto simp: obj_keys_def)
  from n have none: "obj_get ps (fst p) = None"
    by (simp add: obj_get_None_iff)
  have "obj_get (spread (obj_set (fst p) (snd p) t) ps) k
        = (case obj_get ps k of None \<Rightarrow> obj_get (obj_set (fst p) (snd p) t) k | Some v \<Rightarrow> Some v)"
    using d by (rule Cons.IH)
  then show ?case
    using none by (auto simp: obj_get_obj_set obj_get_Cons split: option.splits)
qed

lemma get_prop_spread_other:
  "distinct (obj_keys d) \<Longrightarrow> k \<noteq> k0 \<Longrightarrow> get_prop (spread [(k0, x)] d) k = get_prop d k"
  by (simp add: get_prop_def obj_get_spread) (simp add: obj_get_def split: option.splits)

lemma set_obj_keys_spread: "set (obj_keys (spread t d)) = set (obj_keys t) \<union> set (obj_keys d)"
  by (induction d arbitrary: t) (auto simp: set_obj_keys_obj_set obj_keys_Cons obj_keys_Nil)

lemma distinct_spread: "distinct (obj_keys t) \<Longrightarrow> distinct (obj_keys (spread t d))"
  by (induction d arbitrary: t) (auto simp: distinct_obj_set)

lemma no_undefined_obj_set: "no_undefined t \<Longrightarrow> v \<noteq> JUndef \<Longrightarrow> no_undefined (obj_set k v t)"
  by (induction t) (auto simp: no_undefined_def)

lemma no_undefined_spread: "no_undefined t \<Longrightarrow> no_undefined d \<Longrightarrow> no_undefined (spread t d)"
proof (induction d arbitrary: t)
  case Nil
  then show ?case by simp
next
  case (Cons p ps)
  from Cons.prems have "snd p \<noteq> JUndef" "no_undefined ps"
    by (auto simp: no_undefined_def)
  with Cons.prems(1) Cons.IH show ?case
    by (simp add: no_undefined_obj_set)
qed

lemma json_record_id: "no_undefined r \<Longrightarrow> json_record r = r"
  by (simp add: json_record_def no_undefined_def list_all_iff)

lemma no_undefined_json_record: "no_undefined (json_record r)"
  by (simp add: json_record_def no_undefined_def list_all_iff)

lemma distinct_json_record: "distinct (obj_keys r) \<Longrightarrow> distinct (obj_keys (json_record r))"
  by (simp add: json_record_def obj_keys_def distinct_map_filter)

lemma obj_delete_json_record: "obj_delete k (json_record r) = json_record (obj_delete k r)"
  by (induction r) (auto simp: obj_delete_def json_record_def)

lemma obj_get_json_record:
  "distinct (obj_keys r) \<Longrightarrow>
   obj_get (json_record r) k = (case obj_get r k of Some JUndef \<Rightarrow> None | x \<Rightarrow> x)"
proof (induction r)
  case Nil
  then show ?case by (simp add: json_record_def obj_get_def)
next
  case (Cons p ps)
  from Cons.prems have n: "obj_get ps (fst p) = None"
    by (simp add: obj_get_None_iff) (simp add: obj_keys_def)
  from Cons have ih: "obj_get (json_record ps) k = (case obj_get ps k of Some JUndef \<Rightarrow> None | x \<Rightarrow> x)"
    by (simp add: obj_keys_def)
  show ?case
  proof (cases "fst p = k")
    case True
    with n ih show ?thesis
      by (cases p) (auto simp: json_record_def obj_get_def split: option.splits jsval.splits)
  next
    case False
    with ih show ?thesis
      by (cases p) (auto simp: json_record_def obj_get_def split: option.splits jsval.splits)
  qed
qed

lemma get_prop_json_record: "distinct (obj_keys r) \<Longrightarrow> get_prop (json_record r) k = get_prop r k"
  by (simp add: get_prop_def obj_get_json_record split: option.splits jsval.splits)

lemma json_store_id: "parsed_store s \<Longrightarrow> json_store s = s"
  by (induction s) (auto simp: json_store_def parsed_store_def parsed_record_def json_record_id obj_keys_Cons)

lemma json_store_obj_set: "json_store (obj_set k v s) = obj_set k (json_record v) (json_store s)"
  by (induction s) (auto simp: json_store_def)

lemma json_store_obj_delete: "json_store (obj_delete k s) = obj_delete k (json_store s)"
  by (induction s) (auto simp: json_store_def obj_delete_def)

lemma filter_values_obj_set_single:
  "\<not> list_ex R (obj_values s) \<Longrightarrow> R v \<Longrightarrow> filter R (obj_values (obj_set k v s)) = [v]"
  by (induction s) (auto simp: obj_values_def list_ex_iff)

lemma parsed_store_obj_set:
  "parsed_store s \<Longrightarrow> parsed_record r \<Longrightarrow> parsed_store (obj_set k r s)"
proof -
  assume s: "parsed_store s" and r: "parsed_record r"
  have "list_all (\<lambda>p. parsed_record (snd p)) (obj_set k r s)"
    using s r by (induction s) (auto simp: parsed_store_def obj_keys_Cons)
  with s show ?thesis
    by (simp add: parsed_store_def distinct_obj_set)
qed

section \<open>Create followed by list, local storage\<close>

lemma eq_mod_id_trans_left: "eq_mod_id a b \<Longrightarrow> eq_mod_id a x = eq_mod_id b x"
  by (simp add: eq_mod_id_def)

lemma weekKey_of_SomeD: "weekKey_of d = Some wk \<Longrightarrow> get_prop d ''weekKey'' = JStr wk \<and> wk \<noteq> []"
  by (auto simp: weekKey_of_def split: jsval.splits if_splits)

lemma created_record_facts:
  assumes "distinct (obj_keys d)"
  shows "obj_delete ''id'' (spread [(''id'', JStr g)] d) = obj_delete ''id'' d"
    and "get_prop (spread [(''id'', JStr g)] d) ''weekKey'' = get_prop d ''weekKey''"
    and "distinct (obj_keys (spread [(''id'', JStr g)] d))"
  using assms
  by (simp_all add: obj_delete_id_spread get_prop_spread_other distinct_spread obj_keys_Cons obj_keys_Nil)

lemma apiCreateLS_parsed:
  "parsed_store s \<Longrightarrow>
   apiCreateLS now rnd d s
   = (spread [(''id'', JStr (new_id now rnd))] d,
      obj_set (new_id now rnd) (json_record (spread [(''id'', JStr (new_id now rnd))] d)) s)"
  by (simp add: apiCreateLS_def loadAllLS_def saveAllLS_def Let_def json_store_obj_set json_store_id)

lemma apiCreateLS_round_trip:
  assumes d: "draft d" and wk: "weekKey_of d = Some wk"
    and s: "parsed_store s"
    and fresh: "\<not> list_ex (eq_mod_id d) (apiGetWeekLS wk s)"
  shows "eq_mod_id (fst (apiCreateLS now rnd d s)) d"
    and "filter (eq_mod_id (fst (apiCreateLS now rnd d s))) (apiGetWeekLS wk (snd (apiCreateLS now rnd d s)))
         = [json_record (fst (apiCreateLS now rnd d s))]"
proof -
  let ?g = "new_id now rnd"
  let ?rec = "spread [(''id'', JStr ?g)] d"
  let ?Q = "\<lambda>b. get_prop b ''weekKey'' = JStr wk"
  from d have dist: "distinct (obj_keys d)" and defined: "no_undefined (obj_delete ''id'' d)"
    by (simp_all add: draft_def)
  have create: "apiCreateLS now rnd d s = (?rec, obj_set ?g (json_record ?rec) s)"
    using s by (rule apiCreateLS_parsed)
  have del: "obj_delete ''id'' ?rec = obj_delete ''id'' d"
    using dist by (rule created_record_facts)
  then show eq: "eq_mod_id (fst (apiCreateLS now rnd d s)) d"
    by (simp add: create eq_mod_id_def)
  have rec_json: "eq_mod_id ?rec (json_record ?rec)"
    using del defined by (simp add: eq_mod_id_def obj_delete_json_record json_record_id)
  have "get_prop (json_record ?rec) ''weekKey'' = get_prop d ''weekKey''"
    using dist by (simp add: get_prop_json_record created_record_facts)
  with wk have in_week: "?Q (json_record ?rec)"
    by (simp add: weekKey_of_SomeD)
  have none: "\<not> list_ex (\<lambda>b. ?Q b \<and> eq_mod_id ?rec b) (obj_values s)"
    using fresh eq eq_mod_id_trans_left [of ?rec d]
    by (auto simp: apiGetWeekLS_def loadAllLS_def create list_ex_iff)
  have "filter (\<lambda>b. ?Q b \<and> eq_mod_id ?rec b) (obj_values (obj_set ?g (json_record ?rec) s))
        = [json_record ?rec]"
    using none by (rule filter_values_obj_set_single) (simp add: in_week rec_json)
  then show "filter (eq_mod_id (fst (apiCreateLS now rnd d s))) (apiGetWeekLS wk (snd (apiCreateLS now rnd d s)))
             = [json_record (fst (apiCreateLS now rnd d s))]"
    by (simp add: create apiGetWeekLS_def loadAllLS_def conj_commute)
qed

section \<open>Create followed by list, over HTTP\<close>

lemma obj_set_obj_set_same: "obj_set k v (obj_set k v' ob) = obj_set k v ob"
  by (induction ob) auto

lemma bucket_obj_set: "bucket (obj_set wk x c) wk' = (if wk' = wk then x else bucket c wk')"
  by (simp add: bucket_def obj_get_obj_set)

lemma bucket_ensured:
  "bucket (if obj_get c wk = None then obj_set wk [] c else c) wk' = bucket c wk'"
  by (auto simp: bucket_obj_set) (simp add: bucket_def)

lemma obj_set_ensured:
  "obj_set wk x (if obj_get c wk = None then obj_set wk [] c else c) = obj_set wk x c"
  by (simp add: obj_set_obj_set_same)

lemma query_param_Nil: "query_param [] k = JUndef"
  by (simp add: query_param_def obj_get_def)

lemma no_undefined_id: "no_undefined [(''id'', JStr g)]"
  by (simp add: no_undefined_def)

lemma handler_GET:
  "wk \<noteq> [] \<Longrightarrow>
   handler now rnd \<lparr>reqMethod = ''GET'', query = [(''weekKey'', wk)], body = None\<rparr> c
   = (\<lparr>status = 200, headers = [], payload = PList (obj_values (bucket c wk))\<rparr>,
      if obj_get c wk = None then obj_set wk [] c else c)"
  by (simp add: handler_def req_weekKey_def query_param_def obj_get_Cons js_or_def Let_def bucket_obj_set)
     (simp add: bucket_def)

lemma handler_POST:
  "get_prop b ''weekKey'' = JStr wk \<Longrightarrow> wk \<noteq> [] \<Longrightarrow>
   handler now rnd \<lparr>reqMethod = ''POST'', query = [], body = Some b\<rparr> c
   = (\<lparr>status = 201, headers = [], payload = PRecord (spread [(''id'', JStr (new_id now rnd))] b)\<rparr>,
      obj_set wk (obj_set (new_id now rnd) (spread [(''id'', JStr (new_id now rnd))] b) (bucket c wk)) c)"
  by (simp add: handler_def req_weekKey_def query_param_Nil js_or_def Let_def
        bucket_ensured obj_set_ensured)

lemma apiGetWeekHTTP_unfold:
  "wk \<noteq> [] \<Longrightarrow>
   apiGetWeekHTTP now rnd wk c
   = (Inr (map json_record (obj_values (bucket c wk))),
      if obj_get c wk = None then obj_set wk [] c else c)"
  by (simp add: apiGetWeekHTTP_def handler_GET ok_def)

lemma apiCreateHTTP_unfold:
  assumes "distinct (obj_keys d)" and "weekKey_of d = Some wk"
  shows "apiCreateHTTP now rnd d c
         = (Inr (spread [(''id'', JStr (new_id now rnd))] (json_record d)),
            obj_set wk (obj_set (new_id now rnd) (spread [(''id'', JStr (new_id now rnd))] (json_record d))
                          (bucket c wk)) c)"
proof -
  let ?b = "json_record d"
  let ?rec = "spread [(''id'', JStr (new_id now rnd))] ?b"
  from assms have wk: "get_prop ?b ''weekKey'' = JStr wk" "wk \<noteq> []"
    by (simp_all add: get_prop_json_record weekKey_of_SomeD)
  have "no_undefined ?rec"
    by (rule no_undefined_spread) (rule no_undefined_id, rule no_undefined_json_record)
  then have "json_record ?rec = ?rec"
    by (rule json_record_id)
  then show ?thesis
    by (simp add: apiCreateHTTP_def handler_POST [OF wk] ok_def)
qed

lemma parsed_store_bucket: "parsed_cache c \<Longrightarrow> parsed_store (bucket c wk)"
proof (cases "obj_get c wk")
  case None
  then show ?thesis by (simp add: bucket_def parsed_store_def obj_keys_Nil)
next
  case (Some b)
  assume "parsed_cache c"
  moreover from Some have "(wk, b) \<in> set c"
    by (simp add: obj_get_def map_of_SomeD)
  ultimately have "parsed_store b"
    by (auto simp: parsed_cache_def list_all_iff)
  with Some show ?thesis by (simp add: bucket_def)
qed

lemma map_json_record_values: "parsed_store x \<Longrightarrow> map json_record (obj_values x) = obj_values x"
  by (induction x) (auto simp: parsed_store_def parsed_record_def obj_values_def json_record_id obj_keys_Cons)

lemma apiCreateHTTP_round_trip:
  assumes d: "draft d" and wk: "weekKey_of d = Some wk"
    and c: "parsed_cache c"
    and fresh: "\<not> list_ex (eq_mod_id d) (obj_values (bucket c wk))"
  shows "\<exists>created c1 c2.
           apiCreateHTTP now rnd d c = (Inr created, c1)
           \<and> eq_mod_id created d
           \<and> apiGetWeekHTTP now' rnd' wk c1 = (Inr (obj_values (bucket c1 wk)), c2)
           \<and> filter (eq_mod_id created) (obj_values (bucket c1 wk)) = [created]"
proof -
  let ?g = "new_id now rnd"
  let ?rec = "spread [(''id'', JStr ?g)] (json_record d)"
  let ?c1 = "obj_set wk (obj_set ?g ?rec (bucket c wk)) c"
  from d have dist: "distinct (obj_keys d)" and defined: "no_undefined (obj_delete ''id'' d)"
    by (simp_all add: draft_def)
  from wk have wk_ne: "wk \<noteq> []"
    by (simp add: weekKey_of_SomeD)
  have create: "apiCreateHTTP now rnd d c = (Inr ?rec, ?c1)"
    using dist wk by (rule apiCreateHTTP_unfold)
  have "obj_delete ''id'' ?rec = obj_delete ''id'' (json_record d)"
    using dist by (simp add: created_record_facts distinct_json_record)
  also have "\<dots> = obj_delete ''id'' d"
    using defined by (simp add: obj_delete_json_record json_record_id)
  finally have eq: "eq_mod_id ?rec d"
    by (simp add: eq_mod_id_def)
  have rec_parsed: "parsed_record ?rec"
    unfolding parsed_record_def
  proof
    show "distinct (obj_keys ?rec)"
      by (rule distinct_spread) (simp add: obj_keys_Cons obj_keys_Nil)
    show "no_undefined ?rec"
      by (rule no_undefined_spread) (rule no_undefined_id, rule no_undefined_json_record)
  qed
  have bucket1: "bucket ?c1 wk = obj_set ?g ?rec (bucket c wk)"
    by (simp add: bucket_obj_set)
  have "parsed_store (bucket ?c1 wk)"
    unfolding bucket1 using c rec_parsed by (simp add: parsed_store_obj_set parsed_store_bucket)
  then have listing: "apiGetWeekHTTP now' rnd' wk ?c1
                      = (Inr (obj_values (bucket ?c1 wk)), if obj_get ?c1 wk = None then obj_set wk [] ?c1 else ?c1)"
    using wk_ne by (simp add: apiGetWeekHTTP_unfold map_json_record_values)
  have none: "\<not> list_ex (eq_mod_id ?rec) (obj_values (bucket c wk))"
    using fresh eq_mod_id_trans_left [OF eq] by (simp add: list_ex_iff)
  have "filter (eq_mod_id ?rec) (obj_values (obj_set ?g ?rec (bucket c wk))) = [?rec]"
    using none by (rule filter_values_obj_set_single) (simp add: eq_mod_id_def)
  with create eq listing bucket1 show ?thesis
    by simp
qed

section \<open>The serverless handler: methods\<close>

text \<open>
  C9, as stated: a request whose method is not GET, POST or DELETE is answered with
  status 405 and an Allow header. It fails for a request without a week key: the check
  for the week key comes before the dispatch on the method, so a \<open>PUT\<close> with neither
  query string nor body is answered with 400 and no Allow header.
\<close>

theorem handler_missing_weekKey_400_counterexample:
  "''PUT'' \<notin> set [''GET'', ''POST'', ''DELETE'']
   \<and> fst (handler 0 [] \<lparr>reqMethod = ''PUT'', query = [], body = None\<rparr> [])
       = \<lparr>status = 400, headers = [], payload = PError ''Missing weekKey''\<rparr>"
  by (simp add: handler_def req_weekKey_def query_param_def obj_get_def js_or_def)

text \<open>
  C9, amended: a request that carries a week key (in the query string or in the body)
  and whose method is not GET, POST or DELETE is answered with status 405 and the
  header \<open>Allow: GET, POST, DELETE\<close>.
\<close>

theorem handler_other_method_405:
  assumes "reqMethod req \<noteq> ''GET''" and "reqMethod req \<noteq> ''POST''" and "reqMethod req \<noteq> ''DELETE''"
    and "truthy (req_weekKey req)"
  shows "status (fst (handler now rnd req c)) = 405
         \<and> headers (fst (handler now rnd req c)) = [(''Allow'', [''GET'', ''POST'', ''DELETE''])]"
  using assms by (simp add: handler_def Let_def)

theorem handler_other_method_405_witness:
  "reqMethod \<lparr>reqMethod = ''PUT'', query = [(''weekKey'', ''2025-W10'')], body = None\<rparr> \<noteq> ''GET''
   \<and> truthy (req_weekKey \<lparr>reqMethod = ''PUT'', query = [(''weekKey'', ''2025-W10'')], body = None\<rparr>)
   \<and> status (fst (handler 0 [] \<lparr>reqMethod = ''PUT'', query = [(''weekKey'', ''2025-W10'')], body = None\<rparr> [])) = 405
   \<and> headers (fst (handler 0 [] \<lparr>reqMethod = ''PUT'', query = [(''weekKey'', ''2025-W10'')], body = None\<rparr> []))
       = [(''Allow'', [''GET'', ''POST'', ''DELETE''])]"
proof -
  let ?req = "\<lparr>reqMethod = ''PUT'', query = [(''weekKey'', ''2025-W10'')], body = None\<rparr>"
  have t: "truthy (req_weekKey ?req)"
    by (simp add: req_weekKey_def query_param_def obj_get_def js_or_def)
  have m: "reqMethod ?req \<noteq> ''GET''" "reqMethod ?req \<noteq> ''POST''" "reqMethod ?req \<noteq> ''DELETE''"
    by simp_all
  from handler_other_method_405 [OF m t, of 0 "[]" "[]"] t m show ?thesis by simp
qed

section \<open>Week keys\<close>

text \<open>
  C3: the year of a week key is the year of the Thursday of the week. \<open>weekKeyFromDate\<close>
  prints the year of the shifted date. \<open>weekKey\<close> of the roster board computes the week
  number from the shifted date but prints \<open>y\<close>, the year of its argument. For Monday
  2024-12-30, whose Thursday is 2025-01-02, it returns \<open>2024-W01\<close> where the ISO week is
  \<open>2025-W01\<close>, which is also the key it returns for Monday 2024-01-01.
\<close>

theorem weekKey_roster_prints_calendar_year:
  "weekKey (Date_UTC 2024 11 30) = ''2024-W01''
   \<and> getUTCDay (Date_UTC 2024 11 30) = 1
   \<and> getUTCFullYear (addDays (Date_UTC 2024 11 30) 3) = 2025
   \<and> weekKeyFromDate (Date_UTC 2024 11 30) = ''2025-W01''
   \<and> weekKey (Date_UTC 2024 0 1) = ''2024-W01''"
  by code_simp

section \<open>Creating a booking\<close>

text \<open>
  C1: \<open>create\<close> returns the stored record with the generated id. The draft that
  \<open>submit\<close> builds has the property \<open>id: undefined\<close>. In \<open>apiCreateLS\<close> the spread
  \<open>{ id, ...body }\<close> assigns it over the generated id: the returned record has
  \<open>id\<close> undefined and the stored one, after \<open>JSON.stringify\<close>, has no \<open>id\<close> at all.
  Over HTTP the property is dropped when the body is serialised, and the returned
  record carries the generated id.
\<close>

theorem apiCreateLS_ui_draft_has_no_id:
  "submit_body 0 ((init_board 0 1741186800000)\<lparr>name := ''Alex''\<rparr>) (Date_UTC 2025 2 3)
     = [(''id'', JUndef), (''title'', JStr ''Alex''), (''dayISO'', JStr ''2025-03-03T00:00:00.000Z''),
        (''startHour'', JNum 8), (''durationHours'', JNum 4), (''weekKey'', JStr ''2025-W10'')]
   \<and> apiCreateLS 1741186800000 ''k3x9q1''
        [(''id'', JUndef), (''title'', JStr ''Alex''), (''dayISO'', JStr ''2025-03-03T00:00:00.000Z''),
         (''startHour'', JNum 8), (''durationHours'', JNum 4), (''weekKey'', JStr ''2025-W10'')] []
     = ([(''id'', JUndef), (''title'', JStr ''Alex''), (''dayISO'', JStr ''2025-03-03T00:00:00.000Z''),
         (''startHour'', JNum 8), (''durationHours'', JNum 4), (''weekKey'', JStr ''2025-W10'')],
        [(''b_1741186800000_k3x9q1'',
          [(''title'', JStr ''Alex''), (''dayISO'', JStr ''2025-03-03T00:00:00.000Z''),
           (''startHour'', JNum 8), (''durationHours'', JNum 4), (''weekKey'', JStr ''2025-W10'')])])
   \<and> fst (apiCreateHTTP 1741186800000 ''k3x9q1''
        [(''id'', JUndef), (''title'', JStr ''Alex''), (''dayISO'', JStr ''2025-03-03T00:00:00.000Z''),
         (''startHour'', JNum 8), (''durationHours'', JNum 4), (''weekKey'', JStr ''2025-W10'')] [])
     = Inr [(''id'', JStr ''b_1741186800000_k3x9q1''), (''title'', JStr ''Alex''),
            (''dayISO'', JStr ''2025-03-03T00:00:00.000Z''),
            (''startHour'', JNum 8), (''durationHours'', JNum 4), (''weekKey'', JStr ''2025-W10'')]"
  by code_simp

text \<open>
  C4: the stored week key is the ISO week of the stored day. \<open>days\<close> holds UTC
  midnights, and \<open>submit\<close> reads them with the local getters. West of UTC the local
  date of a UTC midnight is the day before: in a browser at UTC-5, on Wednesday
  2025-03-05, the board shows week 2025-W10 (Monday 2025-03-03), and a booking for day
  index 0 is stored with \<open>dayISO\<close> 2025-03-02, a Sunday of week 2025-W09, next to
  \<open>weekKey\<close> 2025-W10.
\<close>

theorem submit_west_of_UTC_stores_day_of_previous_week:
  "submit CONFIG (- 18000000) 1741186800000 ''k3x9q1''
     ((init_board (- 18000000) 1741186800000)\<lparr>name := ''Alex''\<rparr>) \<lparr>ls = [], srv = []\<rparr>
   = Inr (\<lparr>baseDate = Date_UTC 2025 2 3,
           bookings = [[(''title'', JStr ''Alex''), (''dayISO'', JStr ''2025-03-02T00:00:00.000Z''),
                        (''startHour'', JNum 8), (''durationHours'', JNum 4), (''weekKey'', JStr ''2025-W10'')]],
           error = [], name = [], dayIndex = 0, startHour = 8\<rparr>,
          \<lparr>ls = [(''b_1741186800000_k3x9q1'',
                   [(''title'', JStr ''Alex''), (''dayISO'', JStr ''2025-03-02T00:00:00.000Z''),
                    (''startHour'', JNum 8), (''durationHours'', JNum 4), (''weekKey'', JStr ''2025-W10'')])],
            srv = []\<rparr>)
   \<and> toISOString (Date_UTC 2025 2 2) = ''2025-03-02T00:00:00.000Z''
   \<and> weekKeyFromDate (Date_UTC 2025 2 2) = ''2025-W09''"
  by code_simp

section \<open>Deleting a booking\<close>

text \<open>
  The local backend deletes by key, and an unknown key leaves the store as it is. Over
  HTTP every call of \<open>apiDeleteHTTP\<close> throws and leaves the server's cache as it is.
\<close>

lemma apiDeleteHTTP_throws:
  "apiDeleteHTTP now rnd bid c = (Inl (Error (text_of (PError ''Missing weekKey''))), c)"
  by (simp add: apiDeleteHTTP_def handler_def req_weekKey_def query_param_def obj_get_def js_or_def ok_def)

lemma obj_delete_absent: "k \<notin> set (obj_keys s) \<Longrightarrow> obj_delete k s = s"
  by (induction s) (auto simp: obj_delete_def obj_keys_def)

lemma apiDeleteLS_unknown:
  "parsed_store s \<Longrightarrow> to_key bid \<notin> set (obj_keys s) \<Longrightarrow> apiDeleteLS bid s = s"
  by (simp add: apiDeleteLS_def loadAllLS_def saveAllLS_def obj_delete_absent json_store_id)

lemma apiDeleteLS_removes:
  "parsed_store s \<Longrightarrow> apiDeleteLS bid s = obj_delete (to_key bid) s"
  by (simp add: apiDeleteLS_def loadAllLS_def saveAllLS_def json_store_obj_delete json_store_id)

lemma obj_get_obj_delete: "obj_get (obj_delete k s) k' = (if k' = k then None else obj_get s k')"
  by (induction s) (auto simp: obj_delete_def obj_get_def)

text \<open>
  C6: \<open>delete\<close> removes the record if it is there and does nothing otherwise, without
  an error, in both backends. \<open>apiDeleteLS\<close> does. \<open>apiDeleteHTTP\<close> sends its request
  without a week key, the handler answers 400 before it looks at the method, and the
  call throws: for an id that is stored (the record stays) and for one that is not.
  The handler's own \<open>DELETE\<close> branch removes the record when the query string names
  both the id and the week key, which the client never sends.
\<close>

theorem apiDeleteHTTP_rejected_for_lack_of_weekKey:
  "apiDeleteHTTP 1741186800000 ''k3x9q1'' (JStr ''b_1_abc'')
     [(''2025-W10'', [(''b_1_abc'', [(''id'', JStr ''b_1_abc''), (''title'', JStr ''Alex''), (''weekKey'', JStr ''2025-W10'')])])]
   = (Inl (Error (text_of (PError ''Missing weekKey''))),
      [(''2025-W10'', [(''b_1_abc'', [(''id'', JStr ''b_1_abc''), (''title'', JStr ''Alex''), (''weekKey'', JStr ''2025-W10'')])])])
   \<and> apiDeleteHTTP 1741186800000 ''k3x9q1'' (JStr ''b_2_xyz'')
     [(''2025-W10'', [(''b_1_abc'', [(''id'', JStr ''b_1_abc''), (''title'', JStr ''Alex''), (''weekKey'', JStr ''2025-W10'')])])]
   = (Inl (Error (text_of (PError ''Missing weekKey''))),
      [(''2025-W10'', [(''b_1_abc'', [(''id'', JStr ''b_1_abc''), (''title'', JStr ''Alex''), (''weekKey'', JStr ''2025-W10'')])])])
   \<and> apiDeleteLS (JStr ''b_2_xyz'')
     [(''b_1_abc'', [(''id'', JStr ''b_1_abc''), (''title'', JStr ''Alex''), (''weekKey'', JStr ''2025-W10'')])]
   = [(''b_1_abc'', [(''id'', JStr ''b_1_abc''), (''title'', JStr ''Alex''), (''weekKey'', JStr ''2025-W10'')])]
   \<and> apiDeleteLS (JStr ''b_1_abc'')
     [(''b_1_abc'', [(''id'', JStr ''b_1_abc''), (''title'', JStr ''Alex''), (''weekKey'', JStr ''2025-W10'')])]
   = []
   \<and> handler 1741186800000 ''k3x9q1''
       \<lparr>reqMethod = ''DELETE'', query = [(''id'', ''b_1_abc''), (''weekKey'', ''2025-W10'')], body = None\<rparr>
       [(''2025-W10'', [(''b_1_abc'', [(''id'', JStr ''b_1_abc''), (''title'', JStr ''Alex''), (''weekKey'', JStr ''2025-W10'')])])]
     = (\<lparr>status = 200, headers = [], payload = POk\<rparr>, [(''2025-W10'', [])])"
  by code_simp

section \<open>One booking per person and week\<close>

lemma API_create_CONFIG:
  "API_create CONFIG now rnd d w
   = (Inr (fst (apiCreateLS now rnd d (ls w))), w\<lparr>ls := snd (apiCreateLS now rnd d (ls w))\<rparr>)"
  by (simp add: API_create_def use_http_def CONFIG_def split_beta)

lemma load_CONFIG:
  "load CONFIG now rnd b w
   = (b\<lparr>error := [], bookings := apiGetWeekLS (weekKeyFromDate (baseDate b)) (ls w)\<rparr>, w)"
  by (simp add: load_def API_getWeek_def use_http_def CONFIG_def)

lemma length_days: "length (days b) = 7"
  by (simp add: days_def)

lemma stored_submit_body:
  "json_record (spread [(''id'', JStr g)] (submit_body tz b d))
   = [(''title'', JStr (trim (name b))),
      (''dayISO'', JStr (toISOString (Date_UTC (getFullYear tz d) (getMonth tz d) (getDate tz d)))),
      (''startHour'', JNum (startHour b)), (''durationHours'', JNum 4),
      (''weekKey'', JStr (weekKeyFromDate (baseDate b)))]"
  by (simp add: submit_body_def Let_def json_record_def)

lemma submit_accepted:
  assumes s: "parsed_store (ls w)"
    and name: "trim (name b) \<noteq> []"
    and day: "dayIndex b < 7"
    and free: "\<not> list_ex (\<lambda>bk. get_prop bk ''title'' = JStr (trim (name b))) (bookings b)"
  shows "submit CONFIG tz now rnd b w
         = Inr (b\<lparr>name := [], error := [],
                  bookings := apiGetWeekLS (weekKeyFromDate (baseDate b))
                                (obj_set (new_id now rnd)
                                   (json_record (spread [(''id'', JStr (new_id now rnd))]
                                      (submit_body tz b (days b ! dayIndex b)))) (ls w))\<rparr>,
                w\<lparr>ls := obj_set (new_id now rnd)
                            (json_record (spread [(''id'', JStr (new_id now rnd))]
                               (submit_body tz b (days b ! dayIndex b)))) (ls w)\<rparr>)"
proof -
  let ?d = "submit_body tz b (days b ! dayIndex b)"
  let ?rec = "spread [(''id'', JStr (new_id now rnd))] ?d"
  let ?s1 = "obj_set (new_id now rnd) (json_record ?rec) (ls w)"
  have create: "API_create CONFIG now rnd ?d w = (Inr ?rec, w\<lparr>ls := ?s1\<rparr>)"
    by (simp add: API_create_CONFIG apiCreateLS_parsed [OF s])
  have reload: "load CONFIG now rnd (b\<lparr>name := []\<rparr>) (w\<lparr>ls := ?s1\<rparr>)
                = (b\<lparr>name := [], error := [], bookings := apiGetWeekLS (weekKeyFromDate (baseDate b)) ?s1\<rparr>,
                   w\<lparr>ls := ?s1\<rparr>)"
    by (simp add: load_CONFIG)
  have "submit CONFIG tz now rnd b w
        = (case API_create CONFIG now rnd ?d w of
             (Inr created, w') \<Rightarrow> Inr (load CONFIG now rnd (b\<lparr>name := []\<rparr>) w')
           | (Inl e, w') \<Rightarrow> Inr (b\<lparr>error := err_text e\<rparr>, w'))"
    using name day free unfolding submit_def Let_def length_days by simp
  then show ?thesis
    by (simp add: create reload)
qed

lemma submit_rejected:
  assumes "trim (name b) \<noteq> []"
    and "list_ex (\<lambda>bk. get_prop bk ''title'' = JStr (trim (name b))) (bookings b)"
  shows "submit CONFIG tz now rnd b w = Inr (b\<lparr>error := msg_one_per_week\<rparr>, w)"
  using assms by (simp add: submit_def Let_def CONFIG_def)

lemma bookings_for_eq:
  "bookings_for s wk t
   = filter (\<lambda>b. get_prop b ''title'' = JStr t) (apiGetWeekLS wk s)"
  by (simp add: bookings_for_def apiGetWeekLS_def loadAllLS_def conj_commute)

text \<open>
  While the board shows what the store holds for the displayed week, the check of
  \<open>submit\<close> does its work: a submission under a name that has no booking in that week
  is accepted and leaves exactly one booking of that week under the trimmed name, and a
  submission that follows at once, with a name that trims to the same title, ends with
  the message of \<open>msg_one_per_week\<close> and returns the store as it was.
\<close>

lemma submit_right_after_accepted_submit_rejected:
  assumes s: "parsed_store (ls w)"
    and sync: "bookings b = apiGetWeekLS (weekKeyFromDate (baseDate b)) (ls w)"
    and name: "trim (name b) \<noteq> []"
    and day: "dayIndex b < 7"
    and none: "bookings_for (ls w) (weekKeyFromDate (baseDate b)) (trim (name b)) = []"
    and again: "trim n2 = trim (name b)"
  shows "\<exists>b1 w1.
           submit CONFIG tz now rnd b w = Inr (b1, w1)
           \<and> length (bookings_for (ls w1) (weekKeyFromDate (baseDate b)) (trim (name b))) = 1
           \<and> submit CONFIG tz' now' rnd' (b1\<lparr>name := n2, dayIndex := i2, startHour := h2\<rparr>) w1
               = Inr (b1\<lparr>name := n2, dayIndex := i2, startHour := h2, error := msg_one_per_week\<rparr>, w1)"
proof -
  let ?wk = "weekKeyFromDate (baseDate b)"
  let ?t = "trim (name b)"
  let ?g = "new_id now rnd"
  let ?stored = "json_record (spread [(''id'', JStr ?g)] (submit_body tz b (days b ! dayIndex b)))"
  let ?s1 = "obj_set ?g ?stored (ls w)"
  let ?b1 = "b\<lparr>name := [], error := [], bookings := apiGetWeekLS ?wk ?s1\<rparr>"
  let ?w1 = "w\<lparr>ls := ?s1\<rparr>"
  let ?R = "\<lambda>bk. get_prop bk ''weekKey'' = JStr ?wk \<and> get_prop bk ''title'' = JStr ?t"
  from none sync have free: "\<not> list_ex (\<lambda>bk. get_prop bk ''title'' = JStr ?t) (bookings b)"
    by (simp add: bookings_for_eq list_ex_iff filter_empty_conv)
  have first: "submit CONFIG tz now rnd b w = Inr (?b1, ?w1)"
    using s name day free by (rule submit_accepted)
  have stored: "?R ?stored"
    by (simp add: stored_submit_body get_prop_def obj_get_def)
  from none have absent: "\<not> list_ex ?R (obj_values (ls w))"
    by (simp add: bookings_for_def list_ex_iff filter_empty_conv)
  have one: "filter ?R (obj_values ?s1) = [?stored]"
    by (rule filter_values_obj_set_single [where R = ?R, OF absent stored])
  from one have count: "length (bookings_for (ls ?w1) ?wk ?t) = 1"
    by (simp add: bookings_for_def)
  from one have "?stored \<in> set (filter ?R (obj_values ?s1))"
    by simp
  then have listed: "list_ex (\<lambda>bk. get_prop bk ''title'' = JStr ?t) (apiGetWeekLS ?wk ?s1)"
    by (auto simp: apiGetWeekLS_def loadAllLS_def list_ex_iff)
  let ?b2 = "?b1\<lparr>name := n2, dayIndex := i2, startHour := h2\<rparr>"
  have "submit CONFIG tz' now' rnd' ?b2 ?w1 = Inr (?b2\<lparr>error := msg_one_per_week\<rparr>, ?w1)"
  proof (rule submit_rejected)
    show "trim (name ?b2) \<noteq> []" using name again by simp
    show "list_ex (\<lambda>bk. get_prop bk ''title'' = JStr (trim (name ?b2))) (bookings ?b2)"
      using listed again by simp
  qed
  with first count show ?thesis
    by simp
qed

lemma submit_right_after_accepted_submit_rejected_example:
  "parsed_store (ls \<lparr>ls = [], srv = []\<rparr>)
   \<and> bookings ((init_board 0 1741186800000)\<lparr>name := '' Alex ''\<rparr>)
       = apiGetWeekLS (weekKeyFromDate (baseDate ((init_board 0 1741186800000)\<lparr>name := '' Alex ''\<rparr>)))
           (ls \<lparr>ls = [], srv = []\<rparr>)
   \<and> trim (name ((init_board 0 1741186800000)\<lparr>name := '' Alex ''\<rparr>)) \<noteq> []
   \<and> dayIndex ((init_board 0 1741186800000)\<lparr>name := '' Alex ''\<rparr>) < 7
   \<and> bookings_for (ls \<lparr>ls = [], srv = []\<rparr>)
         (weekKeyFromDate (baseDate ((init_board 0 1741186800000)\<lparr>name := '' Alex ''\<rparr>)))
         (trim (name ((init_board 0 1741186800000)\<lparr>name := '' Alex ''\<rparr>))) = []
   \<and> trim ''Alex'' = trim (name ((init_board 0 1741186800000)\<lparr>name := '' Alex ''\<rparr>))
   \<and> (\<exists>b1 w1.
         submit CONFIG 0 1741186800000 ''k3x9q1'' ((init_board 0 1741186800000)\<lparr>name := '' Alex ''\<rparr>)
           \<lparr>ls = [], srv = []\<rparr> = Inr (b1, w1)
         \<and> length (bookings_for (ls w1)
               (weekKeyFromDate (baseDate ((init_board 0 1741186800000)\<lparr>name := '' Alex ''\<rparr>)))
               (trim (name ((init_board 0 1741186800000)\<lparr>name := '' Alex ''\<rparr>)))) = 1
         \<and> submit CONFIG 0 1741186900000 ''p0o9i8'' (b1\<lparr>name := ''Alex'', dayIndex := 2, startHour := 13\<rparr>) w1
             = Inr (b1\<lparr>name := ''Alex'', dayIndex := 2, startHour := 13, error := msg_one_per_week\<rparr>, w1))"
proof -
  let ?b = "(init_board 0 1741186800000)\<lparr>name := '' Alex ''\<rparr>"
  let ?w = "\<lparr>ls = [], srv = []\<rparr>"
  have h1: "parsed_store (ls ?w)"
    by (simp add: parsed_store_def obj_keys_Nil)
  have h2: "bookings ?b = apiGetWeekLS (weekKeyFromDate (baseDate ?b)) (ls ?w)"
    by (simp add: init_board_def apiGetWeekLS_def loadAllLS_def obj_values_def)
  have h3: "trim (name ?b) \<noteq> []"
    by code_simp
  have h4: "dayIndex ?b < 7"
    by (simp add: init_board_def)
  have h5: "bookings_for (ls ?w) (weekKeyFromDate (baseDate ?b)) (trim (name ?b)) = []"
    by (simp add: bookings_for_def obj_values_def)
  have h6: "trim ''Alex'' = trim (name ?b)"
    by code_simp
  from submit_right_after_accepted_submit_rejected
         [OF h1 h2 h3 h4 h5 h6, where tz = 0 and now = 1741186800000 and rnd = "''k3x9q1''"
            and tz' = 0 and now' = 1741186900000 and rnd' = "''p0o9i8''" and ?i2.0 = 2 and ?h2.0 = 13]
  show ?thesis
    using h1 h2 h3 h4 h5 h6 by blast
qed

text \<open>
  C5: with \<open>onePerWeek\<close> on, a second submission under a title that already has a
  booking in the week is rejected and the store keeps exactly one booking for that week
  and title. \<open>submit\<close> looks for the title in \<open>bookings\<close>, the state of the board, not in
  the store, and the refresh timer overwrites that state with the listing of the week
  the board showed when it was opened. The board is opened on 2025-03-05 (week
  2025-W10) on an empty store; \<open>Next\<close> shows week 2025-W11; \<open>Alex\<close> is submitted and
  stored; the timer fires and sets \<open>bookings\<close> to the listing of 2025-W10, which is
  empty; \<open>Alex\<close> is submitted again and accepted. The store then holds two bookings of
  week 2025-W11 with title \<open>Alex\<close>.
\<close>

theorem stale_refresh_admits_second_booking:
  "next_week CONFIG 1741186801000 ''aaaaaa'' (init_board 0 1741186800000) \<lparr>ls = [], srv = []\<rparr>
     = (\<lparr>baseDate = Date_UTC 2025 2 10, bookings = [], error = [], name = [], dayIndex = 0, startHour = 8\<rparr>,
        \<lparr>ls = [], srv = []\<rparr>)
   \<and> weekKeyFromDate (baseDate (init_board 0 1741186800000)) = ''2025-W10''
   \<and> weekKeyFromDate (Date_UTC 2025 2 10) = ''2025-W11''
   \<and> submit CONFIG 0 1741186802000 ''k3x9q1''
        \<lparr>baseDate = Date_UTC 2025 2 10, bookings = [], error = [], name = ''Alex'', dayIndex = 0, startHour = 8\<rparr>
        \<lparr>ls = [], srv = []\<rparr>
     = Inr (\<lparr>baseDate = Date_UTC 2025 2 10,
             bookings = [[(''title'', JStr ''Alex''), (''dayISO'', JStr ''2025-03-10T00:00:00.000Z''),
                          (''startHour'', JNum 8), (''durationHours'', JNum 4), (''weekKey'', JStr ''2025-W11'')]],
             error = [], name = [], dayIndex = 0, startHour = 8\<rparr>,
            \<lparr>ls = [(''b_1741186802000_k3x9q1'',
                     [(''title'', JStr ''Alex''), (''dayISO'', JStr ''2025-03-10T00:00:00.000Z''),
                      (''startHour'', JNum 8), (''durationHours'', JNum 4), (''weekKey'', JStr ''2025-W11'')])],
              srv = []\<rparr>)
   \<and> refresh_tick CONFIG 1741186860000 ''bbbbbb'' (init_board 0 1741186800000)
        \<lparr>baseDate = Date_UTC 2025 2 10,
          bookings = [[(''title'', JStr ''Alex''), (''dayISO'', JStr ''2025-03-10T00:00:00.000Z''),
                       (''startHour'', JNum 8), (''durationHours'', JNum 4), (''weekKey'', JStr ''2025-W11'')]],
          error = [], name = [], dayIndex = 0, startHour = 8\<rparr>
        \<lparr>ls = [(''b_1741186802000_k3x9q1'',
                 [(''title'', JStr ''Alex''), (''dayISO'', JStr ''2025-03-10T00:00:00.000Z''),
                  (''startHour'', JNum 8), (''durationHours'', JNum 4), (''weekKey'', JStr ''2025-W11'')])],
          srv = []\<rparr>
     = (\<lparr>baseDate = Date_UTC 2025 2 10, bookings = [], error = [], name = [], dayIndex = 0, startHour = 8\<rparr>,
        \<lparr>ls = [(''b_1741186802000_k3x9q1'',
                 [(''title'', JStr ''Alex''), (''dayISO'', JStr ''2025-03-10T00:00:00.000Z''),
                  (''startHour'', JNum 8), (''durationHours'', JNum 4), (''weekKey'', JStr ''2025-W11'')])],
          srv = []\<rparr>)
   \<and> submit CONFIG 0 1741186870000 ''p0o9i8''
        \<lparr>baseDate = Date_UTC 2025 2 10, bookings = [], error = [], name = ''Alex'', dayIndex = 0, startHour = 8\<rparr>
        \<lparr>ls = [(''b_1741186802000_k3x9q1'',
                 [(''title'', JStr ''Alex''), (''dayISO'', JStr ''2025-03-10T00:00:00.000Z''),
                  (''startHour'', JNum 8), (''durationHours'', JNum 4), (''weekKey'', JStr ''2025-W11'')])],
          srv = []\<rparr>
     = Inr (\<lparr>baseDate = Date_UTC 2025 2 10,
             bookings = [[(''title'', JStr ''Alex''), (''dayISO'', JStr ''2025-03-10T00:00:00.000Z''),
                          (''startHour'', JNum 8), (''durationHours'', JNum 4), (''weekKey'', JStr ''2025-W11'')],
                         [(''title'', JStr ''Alex''), (''dayISO'', JStr ''2025-03-10T00:00:00.000Z''),
                          (''startHour'', JNum 8), (''durationHours'', JNum 4), (''weekKey'', JStr ''2025-W11'')]],
             error = [], name = [], dayIndex = 0, startHour = 8\<rparr>,
            \<lparr>ls = [(''b_1741186802000_k3x9q1'',
                     [(''title'', JStr ''Alex''), (''dayISO'', JStr ''2025-03-10T00:00:00.000Z''),
                      (''startHour'', JNum 8), (''durationHours'', JNum 4), (''weekKey'', JStr ''2025-W11'')]),
                    (''b_1741186870000_p0o9i8'',
                     [(''title'', JStr ''Alex''), (''dayISO'', JStr ''2025-03-10T00:00:00.000Z''),
                      (''startHour'', JNum 8), (''durationHours'', JNum 4), (''weekKey'', JStr ''2025-W11'')])],
              srv = []\<rparr>)
   \<and> length (bookings_for
         [(''b_1741186802000_k3x9q1'',
           [(''title'', JStr ''Alex''), (''dayISO'', JStr ''2025-03-10T00:00:00.000Z''),
            (''startHour'', JNum 8), (''durationHours'', JNum 4), (''weekKey'', JStr ''2025-W11'')]),
          (''b_1741186870000_p0o9i8'',
           [(''title'', JStr ''Alex''), (''dayISO'', JStr ''2025-03-10T00:00:00.000Z''),
            (''startHour'', JNum 8), (''durationHours'', JNum 4), (''weekKey'', JStr ''2025-W11'')])]
         ''2025-W11'' ''Alex'') = 2"
  by code_simp

section \<open>Create followed by list\<close>

text \<open>
  C7, as stated: from any store state, \<open>create\<close> followed by \<open>listForWeek\<close> of the
  draft's week returns exactly one record equal to the created one apart from the id.
  It fails when the store already holds such a record, which nothing prevents: after
  the same draft has been created twice, the listing holds two, in either backend.
\<close>

theorem create_same_draft_twice_lists_two_counterexample:
  "length (filter (eq_mod_id (fst (apiCreateLS 2 ''bbbbbb''
              [(''title'', JStr ''Alex''), (''dayISO'', JStr ''2025-03-03T00:00:00.000Z''),
               (''startHour'', JNum 8), (''durationHours'', JNum 4), (''weekKey'', JStr ''2025-W10'')]
              (snd (apiCreateLS 1 ''aaaaaa''
                 [(''title'', JStr ''Alex''), (''dayISO'', JStr ''2025-03-03T00:00:00.000Z''),
                  (''startHour'', JNum 8), (''durationHours'', JNum 4), (''weekKey'', JStr ''2025-W10'')] [])))))
      (apiGetWeekLS ''2025-W10''
         (snd (apiCreateLS 2 ''bbbbbb''
              [(''title'', JStr ''Alex''), (''dayISO'', JStr ''2025-03-03T00:00:00.000Z''),
               (''startHour'', JNum 8), (''durationHours'', JNum 4), (''weekKey'', JStr ''2025-W10'')]
              (snd (apiCreateLS 1 ''aaaaaa''
                 [(''title'', JStr ''Alex''), (''dayISO'', JStr ''2025-03-03T00:00:00.000Z''),
                  (''startHour'', JNum 8), (''durationHours'', JNum 4), (''weekKey'', JStr ''2025-W10'')] [])))))) = 2
   \<and> fst (apiGetWeekHTTP 3 ''cccccc'' ''2025-W10''
         (snd (apiCreateHTTP 2 ''bbbbbb''
              [(''title'', JStr ''Alex''), (''dayISO'', JStr ''2025-03-03T00:00:00.000Z''),
               (''startHour'', JNum 8), (''durationHours'', JNum 4), (''weekKey'', JStr ''2025-W10'')]
              (snd (apiCreateHTTP 1 ''aaaaaa''
                 [(''title'', JStr ''Alex''), (''dayISO'', JStr ''2025-03-03T00:00:00.000Z''),
                  (''startHour'', JNum 8), (''durationHours'', JNum 4), (''weekKey'', JStr ''2025-W10'')] [])))))
     = Inr [[(''id'', JStr ''b_1_aaaaaa''), (''title'', JStr ''Alex''), (''dayISO'', JStr ''2025-03-03T00:00:00.000Z''),
             (''startHour'', JNum 8), (''durationHours'', JNum 4), (''weekKey'', JStr ''2025-W10'')],
            [(''id'', JStr ''b_2_bbbbbb''), (''title'', JStr ''Alex''), (''dayISO'', JStr ''2025-03-03T00:00:00.000Z''),
             (''startHour'', JNum 8), (''durationHours'', JNum 4), (''weekKey'', JStr ''2025-W10'')]]"
  by code_simp

text \<open>
  C7, amended: take a draft whose \<open>weekKey\<close> is a non-empty string and whose
  properties other than \<open>id\<close> are defined, and a store (as parsed from JSON) that
  holds in the draft's week no record equal to the draft apart from the id. Then
  \<open>create\<close> followed by \<open>listForWeek\<close> of that week returns exactly one record equal
  to the created one apart from the id: in the local backend, and over HTTP, where
  both calls succeed.
\<close>

theorem create_then_list_holds_one_equal_record:
  assumes d: "draft d" and wk: "weekKey_of d = Some wk"
  shows "(parsed_store s \<and> \<not> list_ex (eq_mod_id d) (apiGetWeekLS wk s) \<longrightarrow>
            length (filter (eq_mod_id (fst (apiCreateLS now rnd d s)))
                      (apiGetWeekLS wk (snd (apiCreateLS now rnd d s)))) = 1)
         \<and> (parsed_cache c \<and> \<not> list_ex (eq_mod_id d) (obj_values (bucket c wk)) \<longrightarrow>
              (\<exists>created c1 bs c2.
                  apiCreateHTTP now rnd d c = (Inr created, c1)
                  \<and> apiGetWeekHTTP now' rnd' wk c1 = (Inr bs, c2)
                  \<and> length (filter (eq_mod_id created) bs) = 1))"
proof (intro conjI impI)
  assume "parsed_store s \<and> \<not> list_ex (eq_mod_id d) (apiGetWeekLS wk s)"
  then have "filter (eq_mod_id (fst (apiCreateLS now rnd d s))) (apiGetWeekLS wk (snd (apiCreateLS now rnd d s)))
             = [json_record (fst (apiCreateLS now rnd d s))]"
    using apiCreateLS_round_trip(2) [OF d wk] by blast
  then show "length (filter (eq_mod_id (fst (apiCreateLS now rnd d s)))
                      (apiGetWeekLS wk (snd (apiCreateLS now rnd d s)))) = 1"
    by simp
next
  assume "parsed_cache c \<and> \<not> list_ex (eq_mod_id d) (obj_values (bucket c wk))"
  then obtain created c1 c2 where
    "apiCreateHTTP now rnd d c = (Inr created, c1)"
    "apiGetWeekHTTP now' rnd' wk c1 = (Inr (obj_values (bucket c1 wk)), c2)"
    "filter (eq_mod_id created) (obj_values (bucket c1 wk)) = [created]"
    using apiCreateHTTP_round_trip [OF d wk, of c now rnd now' rnd'] by blast
  then show "\<exists>created c1 bs c2.
               apiCreateHTTP now rnd d c = (Inr created, c1)
               \<and> apiGetWeekHTTP now' rnd' wk c1 = (Inr bs, c2)
               \<and> length (filter (eq_mod_id created) bs) = 1"
    by force
qed

theorem create_then_list_holds_one_equal_record_witness:
  "draft [(''id'', JUndef), (''title'', JStr ''Alex''), (''startHour'', JNum 8), (''weekKey'', JStr ''2025-W10'')]
   \<and> weekKey_of [(''id'', JUndef), (''title'', JStr ''Alex''), (''startHour'', JNum 8), (''weekKey'', JStr ''2025-W10'')]
       = Some ''2025-W10''
   \<and> parsed_store [(''b_1_aaaaaa'', [(''id'', JStr ''b_1_aaaaaa''), (''title'', JStr ''Sam''), (''startHour'', JNum 8), (''weekKey'', JStr ''2025-W10'')])]
   \<and> \<not> list_ex (eq_mod_id [(''id'', JUndef), (''title'', JStr ''Alex''), (''startHour'', JNum 8), (''weekKey'', JStr ''2025-W10'')])
         (apiGetWeekLS ''2025-W10''
            [(''b_1_aaaaaa'', [(''id'', JStr ''b_1_aaaaaa''), (''title'', JStr ''Sam''), (''startHour'', JNum 8), (''weekKey'', JStr ''2025-W10'')])])
   \<and> length (filter (eq_mod_id (fst (apiCreateLS 2 ''bbbbbb''
                 [(''id'', JUndef), (''title'', JStr ''Alex''), (''startHour'', JNum 8), (''weekKey'', JStr ''2025-W10'')]
                 [(''b_1_aaaaaa'', [(''id'', JStr ''b_1_aaaaaa''), (''title'', JStr ''Sam''), (''startHour'', JNum 8), (''weekKey'', JStr ''2025-W10'')])])))
         (apiGetWeekLS ''2025-W10'' (snd (apiCreateLS 2 ''bbbbbb''
                 [(''id'', JUndef), (''title'', JStr ''Alex''), (''startHour'', JNum 8), (''weekKey'', JStr ''2025-W10'')]
                 [(''b_1_aaaaaa'', [(''id'', JStr ''b_1_aaaaaa''), (''title'', JStr ''Sam''), (''startHour'', JNum 8), (''weekKey'', JStr ''2025-W10'')])])))) = 1
   \<and> parsed_cache [(''2025-W10'', [(''b_1_aaaaaa'', [(''id'', JStr ''b_1_aaaaaa''), (''title'', JStr ''Sam''), (''startHour'', JNum 8), (''weekKey'', JStr ''2025-W10'')])])]
   \<and> \<not> list_ex (eq_mod_id [(''id'', JUndef), (''title'', JStr ''Alex''), (''startHour'', JNum 8), (''weekKey'', JStr ''2025-W10'')])
         (obj_values (bucket [(''2025-W10'', [(''b_1_aaaaaa'', [(''id'', JStr ''b_1_aaaaaa''), (''title'', JStr ''Sam''), (''startHour'', JNum 8), (''weekKey'', JStr ''2025-W10'')])])] ''2025-W10''))
   \<and> (\<exists>created c1 bs c2.
          apiCreateHTTP 2 ''bbbbbb''
            [(''id'', JUndef), (''title'', JStr ''Alex''), (''startHour'', JNum 8), (''weekKey'', JStr ''2025-W10'')]
            [(''2025-W10'', [(''b_1_aaaaaa'', [(''id'', JStr ''b_1_aaaaaa''), (''title'', JStr ''Sam''), (''startHour'', JNum 8), (''weekKey'', JStr ''2025-W10'')])])]
            = (Inr created, c1)
          \<and> apiGetWeekHTTP 3 ''cccccc'' ''2025-W10'' c1 = (Inr bs, c2)
          \<and> length (filter (eq_mod_id created) bs) = 1)"
proof -
  let ?d = "[(''id'', JUndef), (''title'', JStr ''Alex''), (''startHour'', JNum 8), (''weekKey'', JStr ''2025-W10'')]"
  let ?s = "[(''b_1_aaaaaa'', [(''id'', JStr ''b_1_aaaaaa''), (''title'', JStr ''Sam''), (''startHour'', JNum 8), (''weekKey'', JStr ''2025-W10'')])]"
  let ?c = "[(''2025-W10'', ?s)]"
  have h1: "draft ?d" by code_simp
  have h2: "weekKey_of ?d = Some ''2025-W10''" by code_simp
  have h3: "parsed_store ?s" by code_simp
  have h4: "\<not> list_ex (eq_mod_id ?d) (apiGetWeekLS ''2025-W10'' ?s)" by code_simp
  have h5: "parsed_cache ?c" by code_simp
  have h6: "\<not> list_ex (eq_mod_id ?d) (obj_values (bucket ?c ''2025-W10''))" by code_simp
  from create_then_list_holds_one_equal_record
         [OF h1 h2, where s = ?s and c = ?c and now = 2 and rnd = "''bbbbbb''" and now' = 3 and rnd' = "''cccccc''"]
  show ?thesis
    using h1 h2 h3 h4 h5 h6 by blast
qed

section \<open>Start hours\<close>

lemma HOURS_eq: "HOURS = [7, 8, 9, 10, 11, 12, 13, 14, 15, 16, 17, 18, 19, 20]"
  by (simp add: HOURS_def CONFIG_def upt_rec)

lemma HOURS_roster_eq: "HOURS_roster = [6, 7, 8, 9, 10, 11, 12, 13, 14, 15, 16, 17, 18]"
  by (simp add: HOURS_roster_def upt_rec)

lemma thisWeek_after_set:
  "thisWeek (st\<lparr>assignments := obj_set (wkKey st) week a\<rparr>) = week"
  by (simp add: thisWeek_def wkKey_def obj_get_obj_set)

lemma assignFourHours_records:
  assumes "selectedPersonId st \<noteq> []" and "selectedStart st + 4 \<le> 24"
  shows "obj_get (thisWeek (assignFourHours st)) (selectedPersonId st)
         = Some [(''dayIndex'', JNum (selectedDay st)), (''startHour'', JNum (selectedStart st))]"
  using assms by (simp add: assignFourHours_def Let_def thisWeek_after_set obj_get_obj_set)

text \<open>
  C8, as stated: every start hour the form offers lies in the configured range and the
  four-hour block ends by the configured end of the visible day. The second part fails
  on the weekly board: \<open>HOURS\<close> runs up to \<open>hoursEnd\<close> itself, and a block that starts at
  20 ends at 24, past \<open>hoursEnd = 20\<close>.
\<close>

theorem start_hour_20_ends_after_hoursEnd_counterexample:
  "20 \<in> set HOURS \<and> get_prop (submit_body 0 ((init_board 0 0)\<lparr>startHour := 20\<rparr>) 0) ''durationHours'' = JNum 4
   \<and> hoursEnd CONFIG < 20 + 4"
  by (simp add: HOURS_eq CONFIG_def submit_body_def get_prop_def obj_get_def)

text \<open>
  C8, amended: on the weekly board every start hour the form offers lies between
  \<open>hoursStart\<close> and \<open>hoursEnd\<close> inclusive, the submitted duration is 4, and the block
  ends by hour 24 (not by \<open>hoursEnd\<close>). On the roster board every start hour the form
  offers lies between 6 and 18, passes the guard \<open>endHour > 24\<close> of \<open>assignFourHours\<close>
  and is recorded, for the selected person, with its block ending by hour 22.
\<close>

theorem offered_start_hours_within_range_and_day:
  "(startHour b \<in> set HOURS \<longrightarrow>
      get_prop (submit_body tz b d) ''startHour'' = JNum (startHour b)
      \<and> get_prop (submit_body tz b d) ''durationHours'' = JNum 4
      \<and> hoursStart CONFIG \<le> startHour b \<and> startHour b \<le> hoursEnd CONFIG
      \<and> startHour b + 4 \<le> 24)
   \<and> (selectedStart st \<in> set HOURS_roster \<and> selectedPersonId st \<noteq> [] \<longrightarrow>
        6 \<le> selectedStart st \<and> selectedStart st \<le> 18 \<and> selectedStart st + 4 \<le> 22
        \<and> obj_get (thisWeek (assignFourHours st)) (selectedPersonId st)
            = Some [(''dayIndex'', JNum (selectedDay st)), (''startHour'', JNum (selectedStart st))])"
proof (intro conjI impI)
  assume "startHour b \<in> set HOURS"
  then have "7 \<le> startHour b \<and> startHour b \<le> 20"
    by (auto simp: HOURS_eq)
  then show "hoursStart CONFIG \<le> startHour b" "startHour b \<le> hoursEnd CONFIG" "startHour b + 4 \<le> 24"
    by (simp_all add: CONFIG_def)
  show "get_prop (submit_body tz b d) ''startHour'' = JNum (startHour b)"
    "get_prop (submit_body tz b d) ''durationHours'' = JNum 4"
    by (simp_all add: submit_body_def Let_def get_prop_def obj_get_def)
next
  assume a: "selectedStart st \<in> set HOURS_roster \<and> selectedPersonId st \<noteq> []"
  then have r: "6 \<le> selectedStart st \<and> selectedStart st \<le> 18"
    by (auto simp: HOURS_roster_eq)
  then show "6 \<le> selectedStart st" "selectedStart st \<le> 18" "selectedStart st + 4 \<le> 22"
    by simp_all
  from a r show "obj_get (thisWeek (assignFourHours st)) (selectedPersonId st)
                 = Some [(''dayIndex'', JNum (selectedDay st)), (''startHour'', JNum (selectedStart st))]"
    by (simp add: assignFourHours_records)
qed

theorem offered_start_hours_within_range_and_day_witness:
  "startHour ((init_board 0 1741186800000)\<lparr>startHour := 20\<rparr>) \<in> set HOURS
   \<and> hoursStart CONFIG \<le> startHour ((init_board 0 1741186800000)\<lparr>startHour := 20\<rparr>)
   \<and> startHour ((init_board 0 1741186800000)\<lparr>startHour := 20\<rparr>) \<le> hoursEnd CONFIG
   \<and> startHour ((init_board 0 1741186800000)\<lparr>startHour := 20\<rparr>) + 4 \<le> 24
   \<and> selectedStart \<lparr>baseDateR = Date_UTC 2025 2 3, assignments = [], selectedPersonId = ''p1'',
                      selectedDay = 0, selectedStart = 18\<rparr> \<in> set HOURS_roster
   \<and> selectedPersonId \<lparr>baseDateR = Date_UTC 2025 2 3, assignments = [], selectedPersonId = ''p1'',
                      selectedDay = 0, selectedStart = 18\<rparr> \<noteq> []
   \<and> obj_get (thisWeek (assignFourHours \<lparr>baseDateR = Date_UTC 2025 2 3, assignments = [], selectedPersonId = ''p1'',
                      selectedDay = 0, selectedStart = 18\<rparr>)) ''p1''
       = Some [(''dayIndex'', JNum 0), (''startHour'', JNum 18)]"
proof -
  let ?b = "(init_board 0 1741186800000)\<lparr>startHour := 20\<rparr>"
  let ?st = "\<lparr>baseDateR = Date_UTC 2025 2 3, assignments = [], selectedPersonId = ''p1'',
              selectedDay = 0, selectedStart = 18\<rparr>"
  have h1: "startHour ?b \<in> set HOURS"
    by (simp add: HOURS_eq)
  have h2: "selectedStart ?st \<in> set HOURS_roster \<and> selectedPersonId ?st \<noteq> []"
    by (simp add: HOURS_roster_eq)
  from offered_start_hours_within_range_and_day [where b = ?b and st = ?st and tz = 0 and d = 0] h1 h2
  show ?thesis
    by simp
qed

section \<open>The roster board: one assignment per person and week\<close>

lemma filter_key_distinct:
  "distinct (obj_keys xs) \<Longrightarrow>
   filter (\<lambda>p. fst p = k) xs = (case obj_get xs k of None \<Rightarrow> [] | Some v \<Rightarrow> [(k, v)])"
proof (induction xs)
  case Nil
  then show ?case by (simp add: obj_get_def)
next
  case (Cons p ps)
  show ?case
  proof (cases "fst p = k")
    case True
    with Cons.prems have "k \<notin> set (obj_keys ps)"
      by (simp add: obj_keys_Cons)
    then have "filter (\<lambda>p. fst p = k) ps = []"
      by (auto simp: obj_keys_def filter_empty_conv)
    with True show ?thesis
      by (cases p) (simp add: obj_get_Cons)
  next
    case False
    with Cons show ?thesis
      by (simp add: obj_get_Cons obj_keys_Cons)
  qed
qed

lemma parsed_assignments_week:
  "parsed_assignments a \<Longrightarrow> obj_get a wk = Some week \<Longrightarrow> distinct (obj_keys week)"
proof -
  assume p: "parsed_assignments a" and g: "obj_get a wk = Some week"
  from g have "(wk, week) \<in> set a"
    by (simp add: obj_get_def map_of_SomeD)
  with p show ?thesis
    by (auto simp: parsed_assignments_def list_all_iff)
qed

lemma assignments_of_parsed:
  assumes "parsed_assignments a"
  shows "assignments_of a wk pid
         = (case obj_get a wk of
              None \<Rightarrow> []
            | Some week \<Rightarrow> (case obj_get week pid of None \<Rightarrow> [] | Some v \<Rightarrow> [v]))"
proof (cases "obj_get a wk")
  case None
  with assms show ?thesis
    by (simp add: assignments_of_def parsed_assignments_def filter_key_distinct)
next
  case (Some week)
  with assms have "distinct (obj_keys week)"
    by (rule parsed_assignments_week)
  then have "filter (\<lambda>p. fst p = pid) week = (case obj_get week pid of None \<Rightarrow> [] | Some v \<Rightarrow> [(pid, v)])"
    by (rule filter_key_distinct)
  with assms Some show ?thesis
    by (simp add: assignments_of_def parsed_assignments_def filter_key_distinct split: option.splits)
qed

lemma at_most_one_assignment: "parsed_assignments a \<Longrightarrow> length (assignments_of a wk pid) \<le> 1"
  by (simp add: assignments_of_parsed split: option.splits)

lemma parsed_assignments_obj_set:
  assumes a: "parsed_assignments a" and w: "distinct (obj_keys week)"
  shows "parsed_assignments (obj_set wk week a)"
proof -
  have "list_all (\<lambda>w. distinct (obj_keys (snd w))) (obj_set wk week a)"
    using a w by (induction a) (auto simp: parsed_assignments_def obj_keys_Cons)
  with a show ?thesis
    by (simp add: parsed_assignments_def distinct_obj_set)
qed

lemma distinct_thisWeek: "parsed_assignments (assignments st) \<Longrightarrow> distinct (obj_keys (thisWeek st))"
  by (auto simp: thisWeek_def obj_keys_Nil parsed_assignments_week split: option.splits)

lemma parsed_assignFourHours:
  assumes "parsed_assignments (assignments st)"
  shows "parsed_assignments (assignments (assignFourHours st))"
proof -
  from assms have tw: "distinct (obj_keys (thisWeek st))"
    by (rule distinct_thisWeek)
  from assms have a: "spread [] (assignments st) = assignments st"
    by (simp add: parsed_assignments_def spread_empty)
  show ?thesis
    using assms tw a
    by (simp add: assignFourHours_def Let_def spread_empty parsed_assignments_obj_set distinct_obj_set)
qed

lemma parsed_clearAssignment:
  assumes "parsed_assignments (assignments st)"
  shows "parsed_assignments (assignments (clearAssignment pid st))"
proof -
  from assms have tw: "distinct (obj_keys (thisWeek st))"
    by (rule distinct_thisWeek)
  from assms have a: "spread [] (assignments st) = assignments st"
    by (simp add: parsed_assignments_def spread_empty)
  show ?thesis
    using assms tw a
    by (simp add: clearAssignment_def Let_def spread_empty parsed_assignments_obj_set distinct_obj_delete)
qed

lemma parsed_act: "parsed_assignments (assignments st) \<Longrightarrow> parsed_assignments (assignments (act a st))"
  by (cases a) (simp_all add: parsed_assignFourHours parsed_clearAssignment goPrev_def goNext_def goToday_def)

lemma reachable_parsed: "reachable st \<Longrightarrow> parsed_assignments (assignments st)"
  by (induction rule: reachable.induct) (simp_all add: parsed_act)

lemma assignFourHours_replaces:
  assumes p: "parsed_assignments (assignments st)"
    and g: "selectedPersonId st \<noteq> []" "selectedStart st + 4 \<le> 24"
  shows "assignments_of (assignments (assignFourHours st)) (wkKey st) (selectedPersonId st)
         = [[(''dayIndex'', JNum (selectedDay st)), (''startHour'', JNum (selectedStart st))]]"
proof -
  from p have "parsed_assignments (assignments (assignFourHours st))"
    by (rule parsed_assignFourHours)
  then show ?thesis
    using g by (simp add: assignments_of_parsed) (simp add: assignFourHours_def Let_def obj_get_obj_set)
qed

text \<open>
  C10: in every state the roster board can reach, a week holds at most one assignment
  for a person, and it still does after \<open>assignFourHours\<close> and after
  \<open>clearAssignment\<close>. When \<open>assignFourHours\<close> passes its two guards, the person's
  assignment for the displayed week is the newly selected one, whatever was there
  before.
\<close>

theorem one_assignment_per_week_and_person:
  assumes "reachable st"
  shows "length (assignments_of (assignments st) wk pid) \<le> 1
         \<and> length (assignments_of (assignments (assignFourHours st)) wk pid) \<le> 1
         \<and> length (assignments_of (assignments (clearAssignment q st)) wk pid) \<le> 1
         \<and> (selectedPersonId st \<noteq> [] \<and> selectedStart st + 4 \<le> 24 \<longrightarrow>
              assignments_of (assignments (assignFourHours st)) (wkKey st) (selectedPersonId st)
              = [[(''dayIndex'', JNum (selectedDay st)), (''startHour'', JNum (selectedStart st))]])"
proof -
  from assms have p: "parsed_assignments (assignments st)"
    by (rule reachable_parsed)
  show ?thesis
  proof (intro conjI impI)
    show "length (assignments_of (assignments st) wk pid) \<le> 1"
      using p by (rule at_most_one_assignment)
    show "length (assignments_of (assignments (assignFourHours st)) wk pid) \<le> 1"
      using p by (intro at_most_one_assignment parsed_assignFourHours)
    show "length (assignments_of (assignments (clearAssignment q st)) wk pid) \<le> 1"
      using p by (intro at_most_one_assignment parsed_clearAssignment)
  next
    assume "selectedPersonId st \<noteq> [] \<and> selectedStart st + 4 \<le> 24"
    with p show "assignments_of (assignments (assignFourHours st)) (wkKey st) (selectedPersonId st)
                 = [[(''dayIndex'', JNum (selectedDay st)), (''startHour'', JNum (selectedStart st))]]"
      by (simp add: assignFourHours_replaces)
  qed
qed

theorem one_assignment_per_week_and_person_witness:
  "reachable (act (SelectStart 10) (act AssignFourHours
      \<lparr>baseDateR = Date_UTC 2025 2 3, assignments = [], selectedPersonId = ''p1'',
        selectedDay = 0, selectedStart = 8\<rparr>))
   \<and> assignments_of (assignments (act (SelectStart 10) (act AssignFourHours
        \<lparr>baseDateR = Date_UTC 2025 2 3, assignments = [], selectedPersonId = ''p1'',
          selectedDay = 0, selectedStart = 8\<rparr>))) ''2025-W10'' ''p1''
       = [[(''dayIndex'', JNum 0), (''startHour'', JNum 8)]]
   \<and> wkKey (act (SelectStart 10) (act AssignFourHours
        \<lparr>baseDateR = Date_UTC 2025 2 3, assignments = [], selectedPersonId = ''p1'',
          selectedDay = 0, selectedStart = 8\<rparr>)) = ''2025-W10''
   \<and> assignments_of (assignments (assignFourHours (act (SelectStart 10) (act AssignFourHours
        \<lparr>baseDateR = Date_UTC 2025 2 3, assignments = [], selectedPersonId = ''p1'',
          selectedDay = 0, selectedStart = 8\<rparr>)))) ''2025-W10'' ''p1''
       = [[(''dayIndex'', JNum 0), (''startHour'', JNum 10)]]"
proof -
  let ?init = "\<lparr>baseDateR = Date_UTC 2025 2 3, assignments = [], selectedPersonId = ''p1'',
               selectedDay = 0, selectedStart = 8\<rparr>"
  let ?st = "act (SelectStart 10) (act AssignFourHours ?init)"
  have r0: "reachable ?init"
    by (rule reachable.start) (simp add: parsed_assignments_def obj_keys_Nil)
  have r: "reachable ?st"
    by (rule reachable.step [OF reachable.step [OF r0]])
  have before: "assignments_of (assignments ?st) ''2025-W10'' ''p1'' = [[(''dayIndex'', JNum 0), (''startHour'', JNum 8)]]"
    by code_simp
  have wk: "wkKey ?st = ''2025-W10''"
    by code_simp
  have sel: "selectedPersonId ?st = ''p1''" "selectedStart ?st = 10" "selectedDay ?st = 0"
    by (simp_all add: assignFourHours_def Let_def)
  from one_assignment_per_week_and_person [OF r, of "''2025-W10''" "''p1''"] r before wk sel
  show ?thesis
    by simp
qed

section \<open>The two backends compared\<close>

lemma same_content_empty: "same_content [] []"
  by (simp add: same_content_def parsed_store_def bucket_def obj_get_def obj_keys_Nil)

lemma same_content_ensured:
  "same_content s c \<Longrightarrow> same_content s (if obj_get c wk = None then obj_set wk [] c else c)"
  by (simp add: same_content_def bucket_ensured)

lemma obj_values_filter:
  "obj_values (filter (\<lambda>p. Q (snd p)) s) = filter Q (obj_values s)"
  by (induction s) (auto simp: obj_values_def)

lemma parsed_store_filter: "parsed_store s \<Longrightarrow> parsed_store (filter P s)"
  by (auto simp: parsed_store_def obj_keys_def distinct_map_filter list_all_iff)

lemma list_step:
  assumes sc: "same_content s c" and wk: "wk \<noteq> []"
  shows "run_HTTP now rnd (ListForWeek wk) c
         = (Listed (apiGetWeekLS wk s), if obj_get c wk = None then obj_set wk [] c else c)"
proof -
  let ?Q = "\<lambda>b. get_prop b ''weekKey'' = JStr wk"
  from sc have b: "bucket c wk = filter (\<lambda>p. ?Q (snd p)) s" and p: "parsed_store s"
    by (simp_all add: same_content_def)
  from p have "parsed_store (bucket c wk)"
    unfolding b by (rule parsed_store_filter)
  then have "map json_record (obj_values (bucket c wk)) = obj_values (bucket c wk)"
    by (rule map_json_record_values)
  also have "\<dots> = filter ?Q (obj_values s)"
    unfolding b by (rule obj_values_filter)
  finally show ?thesis
    using wk by (simp add: apiGetWeekHTTP_unfold apiGetWeekLS_def loadAllLS_def)
qed

lemma create_step:
  assumes sc: "same_content s c" and d: "plain_draft d"
    and fresh: "new_id now rnd \<notin> set (obj_keys s)"
  shows "fst (run_HTTP now rnd (CreateOp d) c) = Created (fst (apiCreateLS now rnd d s))"
    and "same_content (snd (apiCreateLS now rnd d s)) (snd (run_HTTP now rnd (CreateOp d) c))"
proof -
  let ?g = "new_id now rnd"
  let ?rec = "spread [(''id'', JStr ?g)] d"
  from d have dist: "distinct (obj_keys d)" and def: "no_undefined d"
    by (simp_all add: plain_draft_def)
  from d obtain wk where wk: "weekKey_of d = Some wk"
    by (auto simp: plain_draft_def)
  let ?Q = "\<lambda>w (p :: string \<times> booking). get_prop (snd p) ''weekKey'' = JStr w"
  from sc have p: "parsed_store s" and b: "\<And>w. bucket c w = filter (?Q w) s"
    by (simp_all add: same_content_def)
  have json_d: "json_record d = d"
    using def by (rule json_record_id)
  have rec_def: "no_undefined ?rec"
    using no_undefined_id def by (rule no_undefined_spread)
  have rec_parsed: "parsed_record ?rec"
    using dist rec_def by (simp add: parsed_record_def created_record_facts)
  have rec_wk: "get_prop ?rec ''weekKey'' = JStr wk"
    using dist wk by (simp add: created_record_facts weekKey_of_SomeD)
  have local: "apiCreateLS now rnd d s = (?rec, s @ [(?g, ?rec)])"
    using p fresh rec_def by (simp add: apiCreateLS_parsed json_record_id obj_set_new)
  let ?c1 = "obj_set wk (obj_set ?g ?rec (bucket c wk)) c"
  have remote: "apiCreateHTTP now rnd d c = (Inr ?rec, ?c1)"
    using apiCreateHTTP_unfold [OF dist wk, of now rnd c] by (simp add: json_d)
  show "fst (run_HTTP now rnd (CreateOp d) c) = Created (fst (apiCreateLS now rnd d s))"
    by (simp add: local remote)
  have "set (obj_keys (filter (?Q wk) s)) \<subseteq> set (obj_keys s)"
    by (auto simp: obj_keys_def)
  with fresh have "?g \<notin> set (obj_keys (bucket c wk))"
    unfolding b by blast
  then have grown: "obj_set ?g ?rec (bucket c wk) = filter (?Q wk) s @ [(?g, ?rec)]"
    by (simp add: obj_set_new b)
  have "parsed_store (s @ [(?g, ?rec)])"
    using parsed_store_obj_set [OF p rec_parsed, of ?g] fresh by (simp add: obj_set_new)
  moreover have "bucket ?c1 w = filter (?Q w) (s @ [(?g, ?rec)])" for w
    using grown rec_wk by (simp add: bucket_obj_set b)
  ultimately have "same_content (s @ [(?g, ?rec)]) ?c1"
    by (simp add: same_content_def)
  then show "same_content (snd (apiCreateLS now rnd d s)) (snd (run_HTTP now rnd (CreateOp d) c))"
    by (simp add: local remote)
qed

lemma run_all_agree:
  "admissible ops s \<Longrightarrow> same_content s c \<Longrightarrow>
   fst (run_all_LS ops s) = fst (run_all_HTTP ops c)
   \<and> same_content (snd (run_all_LS ops s)) (snd (run_all_HTTP ops c))"
proof (induction ops s arbitrary: c rule: admissible.induct)
  case (1 s)
  then show ?case by simp
next
  case (2 now rnd wk ops s)
  from "2.prems" have wk: "wk \<noteq> []" and rest: "admissible ops s"
    by simp_all
  let ?c1 = "if obj_get c wk = None then obj_set wk [] c else c"
  have step: "run_HTTP now rnd (ListForWeek wk) c = (Listed (apiGetWeekLS wk s), ?c1)"
    using "2.prems"(2) wk by (rule list_step)
  have "same_content s ?c1"
    using "2.prems"(2) by (rule same_content_ensured)
  with rest have "fst (run_all_LS ops s) = fst (run_all_HTTP ops ?c1)
                  \<and> same_content (snd (run_all_LS ops s)) (snd (run_all_HTTP ops ?c1))"
    by (rule "2.IH")
  then show ?case
    by (simp add: step del: run_HTTP.simps)
next
  case (3 now rnd d ops s)
  from "3.prems" have d: "plain_draft d" and fresh: "new_id now rnd \<notin> set (obj_keys s)"
    and rest: "admissible ops (snd (apiCreateLS now rnd d s))"
    by simp_all
  let ?s1 = "snd (apiCreateLS now rnd d s)"
  let ?c1 = "snd (run_HTTP now rnd (CreateOp d) c)"
  have res: "fst (run_HTTP now rnd (CreateOp d) c) = Created (fst (apiCreateLS now rnd d s))"
    using "3.prems"(2) d fresh by (rule create_step)
  have "same_content ?s1 ?c1"
    using "3.prems"(2) d fresh by (rule create_step)
  with rest have "fst (run_all_LS ops ?s1) = fst (run_all_HTTP ops ?c1)
                  \<and> same_content (snd (run_all_LS ops ?s1)) (snd (run_all_HTTP ops ?c1))"
    by (rule "3.IH")
  then show ?case
    using res by (simp del: run_HTTP.simps)
next
  case (4 now rnd bid ops s)
  then show ?case by simp
qed

text \<open>
  C2, as stated: on the same calls the two backends return the same results, errors and
  listings. Three calls on empty stores on which they differ: \<open>delete\<close> returns
  locally and throws over HTTP (the request carries no week key); \<open>listForWeek\<close> of
  the empty week key returns the empty list locally and throws over HTTP; \<open>create\<close>
  of a draft with \<open>id: undefined\<close> returns a record without id locally and one with
  the generated id over HTTP.
\<close>

theorem backends_differ_counterexample:
  "fst (run_LS 1 ''aaaaaa'' (DeleteOp (JStr ''b_1_abc'')) []) = Deleted
   \<and> fst (run_HTTP 1 ''aaaaaa'' (DeleteOp (JStr ''b_1_abc'')) [])
       = Threw (Error (text_of (PError ''Missing weekKey'')))
   \<and> fst (run_LS 1 ''aaaaaa'' (ListForWeek []) []) = Listed []
   \<and> fst (run_HTTP 1 ''aaaaaa'' (ListForWeek []) [])
       = Threw (Error (text_of (PError ''Missing weekKey'')))
   \<and> fst (run_LS 1 ''aaaaaa'' (CreateOp [(''id'', JUndef), (''title'', JStr ''Alex''), (''weekKey'', JStr ''2025-W10'')]) [])
       = Created [(''id'', JUndef), (''title'', JStr ''Alex''), (''weekKey'', JStr ''2025-W10'')]
   \<and> fst (run_HTTP 1 ''aaaaaa'' (CreateOp [(''id'', JUndef), (''title'', JStr ''Alex''), (''weekKey'', JStr ''2025-W10'')]) [])
       = Created [(''id'', JStr ''b_1_aaaaaa''), (''title'', JStr ''Alex''), (''weekKey'', JStr ''2025-W10'')]"
  by code_simp

text \<open>
  C2, amended: take any sequence of \<open>listForWeek\<close> and \<open>create\<close> calls in which every
  week key is a non-empty string, every draft has a non-empty string \<open>weekKey\<close> and no
  \<open>undefined\<close> property, and every generated id is new to the store; both backends
  start empty and generate the same ids. Then the two backends return the same results
  call by call, and afterwards the same listing for every non-empty week key.
  (\<open>delete\<close> is left out.)
\<close>

theorem backends_agree_on_list_and_create:
  assumes "admissible ops []"
  shows "fst (run_all_LS ops []) = fst (run_all_HTTP ops [])
         \<and> (wk \<noteq> [] \<longrightarrow>
              fst (run_LS now rnd (ListForWeek wk) (snd (run_all_LS ops [])))
              = fst (run_HTTP now rnd (ListForWeek wk) (snd (run_all_HTTP ops []))))"
proof -
  from assms same_content_empty
  have agree: "fst (run_all_LS ops []) = fst (run_all_HTTP ops [])
               \<and> same_content (snd (run_all_LS ops [])) (snd (run_all_HTTP ops []))"
    by (rule run_all_agree)
  then have "wk \<noteq> [] \<Longrightarrow>
             run_HTTP now rnd (ListForWeek wk) (snd (run_all_HTTP ops []))
             = (Listed (apiGetWeekLS wk (snd (run_all_LS ops []))),
                if obj_get (snd (run_all_HTTP ops [])) wk = None
                then obj_set wk [] (snd (run_all_HTTP ops [])) else snd (run_all_HTTP ops []))"
    by (simp add: list_step del: run_HTTP.simps)
  with agree show ?thesis
    by (simp del: run_HTTP.simps)
qed

theorem backends_agree_on_list_and_create_witness:
  "admissible
     [(1, ''aaaaaa'', CreateOp [(''title'', JStr ''Alex''), (''startHour'', JNum 8), (''weekKey'', JStr ''2025-W10'')]),
      (2, ''bbbbbb'', ListForWeek ''2025-W10''),
      (3, ''cccccc'', CreateOp [(''title'', JStr ''Sam''), (''startHour'', JNum 9), (''weekKey'', JStr ''2025-W11'')]),
      (4, ''dddddd'', CreateOp [(''title'', JStr ''Sam''), (''startHour'', JNum 13), (''weekKey'', JStr ''2025-W10'')]),
      (5, ''eeeeee'', ListForWeek ''2025-W11'')] []
   \<and> fst (run_all_LS
     [(1, ''aaaaaa'', CreateOp [(''title'', JStr ''Alex''), (''startHour'', JNum 8), (''weekKey'', JStr ''2025-W10'')]),
      (2, ''bbbbbb'', ListForWeek ''2025-W10''),
      (3, ''cccccc'', CreateOp [(''title'', JStr ''Sam''), (''startHour'', JNum 9), (''weekKey'', JStr ''2025-W11'')]),
      (4, ''dddddd'', CreateOp [(''title'', JStr ''Sam''), (''startHour'', JNum 13), (''weekKey'', JStr ''2025-W10'')]),
      (5, ''eeeeee'', ListForWeek ''2025-W11'')] [])
     = fst (run_all_HTTP
     [(1, ''aaaaaa'', CreateOp [(''title'', JStr ''Alex''), (''startHour'', JNum 8), (''weekKey'', JStr ''2025-W10'')]),
      (2, ''bbbbbb'', ListForWeek ''2025-W10''),
      (3, ''cccccc'', CreateOp [(''title'', JStr ''Sam''), (''startHour'', JNum 9), (''weekKey'', JStr ''2025-W11'')]),
      (4, ''dddddd'', CreateOp [(''title'', JStr ''Sam''), (''startHour'', JNum 13), (''weekKey'', JStr ''2025-W10'')]),
      (5, ''eeeeee'', ListForWeek ''2025-W11'')] [])
   \<and> fst (run_LS 6 ''ffffff'' (ListForWeek ''2025-W10'') (snd (run_all_LS
     [(1, ''aaaaaa'', CreateOp [(''title'', JStr ''Alex''), (''startHour'', JNum 8), (''weekKey'', JStr ''2025-W10'')]),
      (2, ''bbbbbb'', ListForWeek ''2025-W10''),
      (3, ''cccccc'', CreateOp [(''title'', JStr ''Sam''), (''startHour'', JNum 9), (''weekKey'', JStr ''2025-W11'')]),
      (4, ''dddddd'', CreateOp [(''title'', JStr ''Sam''), (''startHour'', JNum 13), (''weekKey'', JStr ''2025-W10'')]),
      (5, ''eeeeee'', ListForWeek ''2025-W11'')] [])))
     = fst (run_HTTP 6 ''ffffff'' (ListForWeek ''2025-W10'') (snd (run_all_HTTP
     [(1, ''aaaaaa'', CreateOp [(''title'', JStr ''Alex''), (''startHour'', JNum 8), (''weekKey'', JStr ''2025-W10'')]),
      (2, ''bbbbbb'', ListForWeek ''2025-W10''),
      (3, ''cccccc'', CreateOp [(''title'', JStr ''Sam''), (''startHour'', JNum 9), (''weekKey'', JStr ''2025-W11'')]),
      (4, ''dddddd'', CreateOp [(''title'', JStr ''Sam''), (''startHour'', JNum 13), (''weekKey'', JStr ''2025-W10'')]),
      (5, ''eeeeee'', ListForWeek ''2025-W11'')] [])))"
proof -
  let ?ops = "[(1, ''aaaaaa'', CreateOp [(''title'', JStr ''Alex''), (''startHour'', JNum 8), (''weekKey'', JStr ''2025-W10'')]),
      (2, ''bbbbbb'', ListForWeek ''2025-W10''),
      (3, ''cccccc'', CreateOp [(''title'', JStr ''Sam''), (''startHour'', JNum 9), (''weekKey'', JStr ''2025-W11'')]),
      (4, ''dddddd'', CreateOp [(''title'', JStr ''Sam''), (''startHour'', JNum 13), (''weekKey'', JStr ''2025-W10'')]),
      (5, ''eeeeee'', ListForWeek ''2025-W11'')]"
  have adm: "admissible ?ops []"
    by code_simp
  from backends_agree_on_list_and_create [OF adm, where wk = "''2025-W10''" and now = 6 and rnd = "''ffffff''"] adm
  show ?thesis
    by simp
qed

end
